theory Spec2Isabelle
  imports Main "HOL-Library.AList"
begin

section \<open>Strings\<close>

text \<open>
  Python's \<^verbatim>\<open>s.endswith(suf)\<close>: the last \<open>length suf\<close> characters of \<open>s\<close> are \<open>suf\<close>.
\<close>

definition endswith :: "string \<Rightarrow> string \<Rightarrow> bool" where
  "endswith s suf = (length suf \<le> length s \<and> drop (length s - length suf) s = suf)"

section \<open>XML trees and the ElementTree queries the source uses\<close>

text \<open>
  An element has a tag, attributes, an optional text (\<^verbatim>\<open>None\<close> when the element has no
  text) and child elements. \<^verbatim>\<open>e.findall('.//' + tag)\<close> lists, in document order, the
  elements below \<open>e\<close> (at any depth, \<open>e\<close> itself excluded) that carry the tag;
  \<^verbatim>\<open>e.find('.//' + tag)\<close> is the first of them or \<^verbatim>\<open>None\<close>; \<^verbatim>\<open>e.find('.//*')\<close> is the
  first element below \<open>e\<close> whatever its tag.
\<close>

datatype xml =
  Element (xtag: string) (xattrib: "(string \<times> string) list") (xtext: "string option")
    (xchildren: "xml list")

fun descendants :: "xml \<Rightarrow> xml list" where
  "descendants (Element t a x cs) = concat (map (\<lambda>c. c # descendants c) cs)"

definition findall :: "xml \<Rightarrow> string \<Rightarrow> xml list" where
  "findall e tg = filter (\<lambda>d. xtag d = tg) (descendants e)"

definition xfind :: "xml \<Rightarrow> string \<Rightarrow> xml option" where
  "xfind e tg = (case findall e tg of [] \<Rightarrow> None | d # _ \<Rightarrow> Some d)"

definition xfind_any :: "xml \<Rightarrow> xml option" where
  "xfind_any e = (case descendants e of [] \<Rightarrow> None | d # _ \<Rightarrow> Some d)"

text \<open>The tags of the element classes of \<^verbatim>\<open>caldav.elements\<close> that the source names.\<close>

definition Response_tag :: string where "Response_tag = ''{DAV:}response''"
definition Status_tag :: string where "Status_tag = ''{DAV:}status''"
definition Href_tag :: string where "Href_tag = ''{DAV:}href''"
definition ResourceType_tag :: string where "ResourceType_tag = ''{DAV:}resourcetype''"
definition DisplayName_tag :: string where "DisplayName_tag = ''{DAV:}displayname''"
definition CalendarData_tag :: string where
  "CalendarData_tag = ''{urn:ietf:params:xml:ns:caldav}calendar-data''"
definition CalendarHomeSet_tag :: string where
  "CalendarHomeSet_tag = ''{urn:ietf:params:xml:ns:caldav}calendar-home-set''"

section \<open>Errors and responses\<close>

text \<open>
  Every exception the modelled code can raise is a value; an operation returns
  \<open>Inl\<close> of it instead of a result. The first five are the kinds of \<^verbatim>\<open>caldav.lib.error\<close>
  the source raises by name, \<open>DAVError\<close> stands for any other kind of that module,
  \<open>PyException\<close> is the plain \<^verbatim>\<open>Exception\<close> of \<^verbatim>\<open>get_properties\<close>, \<open>ParseError\<close> is
  what the iCalendar reader raises, and the others are Python's own. The raw response an
  exception carries is left out.
\<close>

datatype error =
  NotFoundError | ReportError | PropsetError | PutError | DeleteError | DAVError
  | PyException | ParseError | AttributeError | TypeError | IndexError | KeyError

text \<open>
  What the transport hands back: the HTTP status, the headers as the list of pairs the
  source iterates over, the raw body and the parsed tree (\<^verbatim>\<open>None\<close> when there is none).
\<close>

record response =
  status :: int
  headers :: "(string \<times> string) list"
  raw :: string
  tree :: "xml option"

section \<open>\<^verbatim>\<open>DAVObject._handle_prop_response\<close>\<close>

text \<open>The attribute \<^verbatim>\<open>getattr(val, what)\<close> reads: the callers pass \<^verbatim>\<open>'text'\<close> or \<^verbatim>\<open>'tag'\<close>.\<close>

datatype what = Text | Tag

definition getattr_what :: "what \<Rightarrow> xml \<Rightarrow> string option" where
  "getattr_what w v = (case w of Text \<Rightarrow> xtext v | Tag \<Rightarrow> Some (xtag v))"

text \<open>
  A property map is a Python dict from the href text to a dict from property tag to value.
  Both are association lists updated with \<open>AList.update\<close>: a new key goes to the end, an
  old key keeps its place, as in a dict. An href without text is the key \<^verbatim>\<open>None\<close>.
\<close>

type_synonym propvals = "(string \<times> string option) list"
type_synonym properties = "(string option \<times> propvals) list"

text \<open>
  One round of the inner loop: \<^verbatim>\<open>t = r.find(".//" + p.tag)\<close>, then the value. When the
  property element is missing, \<^verbatim>\<open>list(t)\<close> raises \<^verbatim>\<open>TypeError\<close>.
\<close>

definition prop_value :: "xml \<Rightarrow> string option \<Rightarrow> what \<Rightarrow> xml \<Rightarrow> error + string option" where
  "prop_value r ty w p =
     (case xfind r (xtag p) of
        None \<Rightarrow> Inl TypeError
      | Some t \<Rightarrow>
          if length (xchildren t) > 0 then
            (case (case ty of Some tg \<Rightarrow> xfind t tg | None \<Rightarrow> xfind_any t) of
               Some val \<Rightarrow> Inr (getattr_what w val)
             | None \<Rightarrow> Inr None)
          else Inr (xtext t))"

fun handle_props ::
  "xml \<Rightarrow> string option \<Rightarrow> what \<Rightarrow> xml list \<Rightarrow> propvals \<Rightarrow> error + propvals" where
  "handle_props r ty w [] d = Inr d"
| "handle_props r ty w (p # ps) d =
     (case prop_value r ty w p of
        Inl e \<Rightarrow> Inl e
      | Inr v \<Rightarrow> handle_props r ty w ps (AList.update (xtag p) v d))"

text \<open>
  The outer loop over the \<^verbatim>\<open><response>\<close> elements. \<^verbatim>\<open>status.text.endswith\<close> raises
  \<^verbatim>\<open>AttributeError\<close> when there is no status element or it has no text, and so does
  \<^verbatim>\<open>.text\<close> of a missing href. The dict \<^verbatim>\<open>properties[href]\<close> starts empty and is filled
  by the inner loop; it is stored here once filled, at the place the empty one would take.
\<close>

fun handle_responses ::
  "string option \<Rightarrow> what \<Rightarrow> xml list \<Rightarrow> xml list \<Rightarrow> properties \<Rightarrow> error + properties" where
  "handle_responses ty w props [] acc = Inr acc"
| "handle_responses ty w props (r # rs) acc =
     (case xfind r Status_tag of
        None \<Rightarrow> Inl AttributeError
      | Some st \<Rightarrow>
          (case xtext st of
             None \<Rightarrow> Inl AttributeError
           | Some s \<Rightarrow>
               if \<not> endswith s ''200 OK'' then
                 (if endswith s ''404 Not Found'' then handle_responses ty w props rs acc
                  else Inl ReportError)
               else
                 (case xfind r Href_tag of
                    None \<Rightarrow> Inl AttributeError
                  | Some h \<Rightarrow>
                      (case handle_props r ty w props [] of
                         Inl e \<Rightarrow> Inl e
                       | Inr d \<Rightarrow> handle_responses ty w props rs (AList.update (xtext h) d acc)))))"

definition handle_prop_response ::
  "response \<Rightarrow> xml list \<Rightarrow> string option \<Rightarrow> what \<Rightarrow> error + properties" where
  "handle_prop_response rsp props ty w =
     (case tree rsp of
        None \<Rightarrow> Inl AttributeError
      | Some t \<Rightarrow> handle_responses ty w props (findall t Response_tag) [])"

text \<open>Vocabulary for the status line of one \<^verbatim>\<open><response>\<close> entry and for its href.\<close>

definition status_line :: "xml \<Rightarrow> string option" where
  "status_line r = (case xfind r Status_tag of None \<Rightarrow> None | Some st \<Rightarrow> xtext st)"

definition status_200 :: "xml \<Rightarrow> bool" where
  "status_200 r = (case status_line r of None \<Rightarrow> False | Some s \<Rightarrow> endswith s ''200 OK'')"

definition status_404 :: "xml \<Rightarrow> bool" where
  "status_404 r =
     (case status_line r of None \<Rightarrow> False
      | Some s \<Rightarrow> \<not> endswith s ''200 OK'' \<and> endswith s ''404 Not Found'')"

definition status_other :: "xml \<Rightarrow> bool" where
  "status_other r =
     (case status_line r of None \<Rightarrow> False
      | Some s \<Rightarrow> \<not> endswith s ''200 OK'' \<and> \<not> endswith s ''404 Not Found'')"

definition href_of :: "xml \<Rightarrow> string option" where
  "href_of r = (case xfind r Href_tag of None \<Rightarrow> None | Some h \<Rightarrow> xtext h)"

text \<open>
  An entry is well formed for the requested properties when it has a status line and, if
  that line is a 200, an href element and an element for every requested property.
\<close>

definition entry_ok :: "xml list \<Rightarrow> xml \<Rightarrow> bool" where
  "entry_ok props r =
     (status_line r \<noteq> None \<and>
      (if status_200 r then xfind r Href_tag \<noteq> None \<and> list_all (\<lambda>p. xfind r (xtag p) \<noteq> None) props
       else True))"

section \<open>The collaborators: transport, URL class, error table, iCalendar codec\<close>

text \<open>
  \<^verbatim>\<open>caldav.lib.url.URL\<close>, \<^verbatim>\<open>caldav.lib.error\<close>, \<^verbatim>\<open>caldav.lib.vcal\<close>, the client,
  \<^verbatim>\<open>vobject\<close> and \<^verbatim>\<open>uuid\<close> are not among the sources. A URL object is identified with
  its textual form, so that \<^verbatim>\<open>str(url)\<close> and \<^verbatim>\<open>URL.objectify\<close> are the identity
  (\<^verbatim>\<open>objectify(None)\<close> is \<^verbatim>\<open>None\<close>), \<^verbatim>\<open>url.endswith\<close> is \<open>endswith\<close> and \<^verbatim>\<open>==\<close>
  on URLs is equality of the texts. Everything else these modules compute is a
  parameter of the model, gathered in the record \<open>env\<close>: the theorems hold for every
  choice of it.
\<close>

type_synonym url = string

datatype http_verb = Propfind | Proppatch | Mkcalendar | Report | Put | Delete | Get

text \<open>A request body is the element tree the source serializes, or a text.\<close>

datatype payload = XmlBody xml | TextBody string

record request =
  verb :: http_verb
  target :: "url option"
  payload :: payload
  depth :: "int option"
  req_headers :: "(string \<times> string) list"

text \<open>
  A parsed iCalendar object: the components \<^verbatim>\<open>_create\<close> looks for, each with its
  \<^verbatim>\<open>uid.value\<close> (\<^verbatim>\<open>None\<close> when the component has no UID), and the rest of its content.
\<close>

record vcomponent =
  uid :: "string option"

record vobject =
  vevent :: "vcomponent option"
  vtodo :: "vcomponent option"
  vjournal :: "vcomponent option"
  vfreebusy :: "vcomponent option"
  other :: "string list"

text \<open>
  \<^item> \<open>server\<close>: the transport and the server behind it; the response to a request is a
    function of all the requests sent so far, the last one being the current one;
  \<^item> \<open>exception_by_method\<close>: the table of \<^verbatim>\<open>caldav.lib.error\<close>;
  \<^item> \<open>join\<close>, \<open>strip_trailing_slash\<close>, \<open>hostname\<close>, \<open>path\<close>, \<open>url_bool\<close>: the methods
    and attributes of \<^verbatim>\<open>URL\<close> the source calls (\<open>url_bool\<close> is its truth value);
  \<^item> \<open>vcal_fix\<close>: \<^verbatim>\<open>vcal.fix\<close>; \<open>readOne\<close>: \<^verbatim>\<open>vobject.readOne\<close>, \<open>None\<close> when it
    raises;
  \<^item> \<open>serialize\<close>: \<^verbatim>\<open>instance.serialize()\<close>, which works on the object in place: it
    returns the text or raises, and it may change the instance (vobject fills in implicit
    fields such as a missing UID), so the instance as the call leaves it is returned too;
  \<^item> \<open>uuid1\<close>: the value of \<^verbatim>\<open>str(uuid.uuid1())\<close>.
\<close>

record env =
  server :: "request list \<Rightarrow> response"
  exception_by_method :: "http_verb \<Rightarrow> error"
  join :: "url \<Rightarrow> string option \<Rightarrow> url"
  strip_trailing_slash :: "url \<Rightarrow> url"
  hostname :: "url \<Rightarrow> string option"
  path :: "url \<Rightarrow> string"
  url_bool :: "url \<Rightarrow> bool"
  vcal_fix :: "string \<Rightarrow> string"
  readOne :: "string \<Rightarrow> vobject option"
  serialize :: "vobject \<Rightarrow> (error + string) \<times> vobject"
  uuid1 :: string

text \<open>
  The client (the session shared by all objects): its base URL, which
  \<^verbatim>\<open>Principal.calendar_home_set\<close> may replace, and the requests it has sent.
\<close>

record client =
  client_url :: url
  sent :: "request list"

definition issue :: "env \<Rightarrow> request \<Rightarrow> client \<Rightarrow> response \<times> client" where
  "issue env rq c = (server env (sent c @ [rq]), c\<lparr>sent := sent c @ [rq]\<rparr>)"

text \<open>Python's truth value of an optional string: \<^verbatim>\<open>None\<close> and \<^verbatim>\<open>''\<close> are false.\<close>

definition truthy :: "string option \<Rightarrow> bool" where
  "truthy v = (case v of None \<Rightarrow> False | Some s \<Rightarrow> s \<noteq> [])"

section \<open>The element builder\<close>

text \<open>
  Modelled from the spec: the element classes of \<^verbatim>\<open>caldav.elements\<close> are not among the
  sources. Each is the element with its WebDAV or CalDAV tag, a value becomes the text,
  a name becomes the attribute \<^verbatim>\<open>name\<close>, and \<^verbatim>\<open>+\<close> appends children.
\<close>

definition elem :: "string \<Rightarrow> xml" where
  "elem tg = Element tg [] None []"

definition add :: "xml \<Rightarrow> xml list \<Rightarrow> xml" where
  "add e cs = Element (xtag e) (xattrib e) (xtext e) (xchildren e @ cs)"

definition DisplayName :: "string \<Rightarrow> xml" where
  "DisplayName n = Element DisplayName_tag [] (Some n) []"

definition named :: "string \<Rightarrow> string \<Rightarrow> xml" where
  "named tg n = Element tg [(''name'', n)] None []"

definition caldav_ns :: "string \<Rightarrow> string" where
  "caldav_ns n = ''{urn:ietf:params:xml:ns:caldav}'' @ n"

section \<open>\<^verbatim>\<open>DAVObject\<close>\<close>

text \<open>
  The fields of a DAV object. \<open>parent_url\<close> is \<^verbatim>\<open>self.parent.url\<close>, \<open>None\<close> when there
  is no parent or the parent has no URL (both make \<^verbatim>\<open>self.parent.url.join\<close> raise
  \<^verbatim>\<open>AttributeError\<close>); \<open>extra_init_options\<close> is the one option the callers pass, the
  \<^verbatim>\<open>supported_calendar_component_set\<close>. The client is shared, so it is threaded through
  the operations beside the object.
\<close>

record dav_object =
  obj_id :: "string option"
  obj_url :: "url option"
  obj_name :: "string option"
  parent_url :: "url option"
  extra_init_options :: "string list option"

text \<open>
  \<^verbatim>\<open>DAVObject.__init__\<close>: the URL is joined to the client's when
  \<^verbatim>\<open>client and url\<close> holds (the client is present here).
\<close>

definition DAVObject_init ::
  "env \<Rightarrow> client \<Rightarrow> url option \<Rightarrow> url option \<Rightarrow> string option \<Rightarrow> string option \<Rightarrow>
   string list option \<Rightarrow> dav_object" where
  "DAVObject_init env c u parent nm i extra =
     \<lparr>obj_id = i,
      obj_url = (case u of None \<Rightarrow> None
                 | Some x \<Rightarrow> if url_bool env x then Some (join env (client_url c) (Some x)) else Some x),
      obj_name = nm, parent_url = parent, extra_init_options = extra\<rparr>"

text \<open>
  \<^verbatim>\<open>_query\<close>: the request goes to \<open>u\<close> or, when that is \<^verbatim>\<open>None\<close>, to the object's URL;
  404 is \<^verbatim>\<open>NotFoundError\<close>, an unexpected status or one from 400 on is the error of the
  table.
\<close>

definition query ::
  "env \<Rightarrow> xml option \<Rightarrow> int \<Rightarrow> http_verb \<Rightarrow> url option \<Rightarrow> int option \<Rightarrow>
   'a dav_object_scheme \<Rightarrow> client \<Rightarrow> (error + response) \<times> client" where
  "query env root dp m u expected_return_value self c =
     (let u' = (case u of None \<Rightarrow> obj_url self | Some x \<Rightarrow> Some x);
          body = (case root of None \<Rightarrow> TextBody [] | Some r \<Rightarrow> XmlBody r);
          (ret, c') = issue env \<lparr>verb = m, target = u', payload = body, depth = Some dp,
                                 req_headers = []\<rparr> c
      in if status ret = 404 then (Inl NotFoundError, c')
         else if (expected_return_value \<noteq> None \<and> Some (status ret) \<noteq> expected_return_value)
                 \<or> status ret \<ge> 400
         then (Inl (exception_by_method env m), c')
         else (Inr ret, c'))"

definition query_properties ::
  "env \<Rightarrow> xml list \<Rightarrow> int \<Rightarrow> 'a dav_object_scheme \<Rightarrow> client \<Rightarrow> (error + response) \<times> client" where
  "query_properties env props dp self c =
     (let root = (if length props > 0
                  then Some (add (elem ''{DAV:}propfind'') [add (elem ''{DAV:}prop'') props])
                  else None)
      in query env root dp Propfind None None self c)"

text \<open>
  \<^verbatim>\<open>get_properties\<close>. \<^verbatim>\<open>path in properties.keys()\<close> followed by \<^verbatim>\<open>properties[path]\<close>
  is one lookup. \<^verbatim>\<open>self.url.path\<close> raises \<^verbatim>\<open>AttributeError\<close> when the URL is \<^verbatim>\<open>None\<close>.
\<close>

definition get_properties ::
  "env \<Rightarrow> xml list \<Rightarrow> int \<Rightarrow> 'a dav_object_scheme \<Rightarrow> client \<Rightarrow> (error + propvals) \<times> client" where
  "get_properties env props dp self c =
     (case query_properties env props dp self c of
        (Inl e, c') \<Rightarrow> (Inl e, c')
      | (Inr rsp, c') \<Rightarrow>
          (case handle_prop_response rsp props None Text of
             Inl e \<Rightarrow> (Inl e, c')
           | Inr properties \<Rightarrow>
               (case obj_url self of
                  None \<Rightarrow> (Inl AttributeError, c')
                | Some u \<Rightarrow>
                    (let p = path env u; exchange_path = path env u @ ''/''
                     in case map_of properties (Some p) of
                          Some rc \<Rightarrow> (Inr rc, c')
                        | None \<Rightarrow>
                            (case map_of properties (Some exchange_path) of
                               Some rc \<Rightarrow> (Inr rc, c')
                             | None \<Rightarrow> (Inl PyException, c'))))))"

text \<open>
  The loop of \<^verbatim>\<open>children\<close> over the keys of the property map. A missing key of a dict
  is \<^verbatim>\<open>KeyError\<close>; \<^verbatim>\<open>self.url.strip_trailing_slash()\<close> on no URL is \<^verbatim>\<open>AttributeError\<close>.
\<close>

fun children_loop ::
  "env \<Rightarrow> string option \<Rightarrow> url option \<Rightarrow> properties \<Rightarrow> string option list \<Rightarrow>
   (url \<times> string option) list \<Rightarrow> error + (url \<times> string option) list" where
  "children_loop env ty su properties [] c = Inr c"
| "children_loop env ty su properties (p # ps) c =
     (case map_of properties p of
        None \<Rightarrow> Inl KeyError
      | Some vals \<Rightarrow>
          (case map_of vals ResourceType_tag of
             None \<Rightarrow> Inl KeyError
           | Some resource_type \<Rightarrow>
               if resource_type = ty \<or> ty = None then
                 (case su of
                    None \<Rightarrow> Inl AttributeError
                  | Some u \<Rightarrow>
                      if strip_trailing_slash env u \<noteq> strip_trailing_slash env (join env u p)
                      then children_loop env ty su properties ps (c @ [(join env u p, resource_type)])
                      else children_loop env ty su properties ps c)
               else children_loop env ty su properties ps c))"

definition children ::
  "env \<Rightarrow> string option \<Rightarrow> 'a dav_object_scheme \<Rightarrow> client \<Rightarrow>
   (error + (url \<times> string option) list) \<times> client" where
  "children env ty self c =
     (let props = [elem ResourceType_tag]
      in case query_properties env props 1 self c of
           (Inl e, c') \<Rightarrow> (Inl e, c')
         | (Inr rsp, c') \<Rightarrow>
             (case handle_prop_response rsp props ty Tag of
                Inl e \<Rightarrow> (Inl e, c')
              | Inr properties \<Rightarrow>
                  (children_loop env ty (obj_url self) properties (map fst properties) [], c')))"

text \<open>\<^verbatim>\<open>set_properties\<close>: every status line of the answer must end in \<^verbatim>\<open>200 OK\<close>.\<close>

fun check_statuses :: "xml list \<Rightarrow> error + unit" where
  "check_statuses [] = Inr ()"
| "check_statuses (s # ss) =
     (case xtext s of
        None \<Rightarrow> Inl AttributeError
      | Some x \<Rightarrow> if \<not> endswith x ''200 OK'' then Inl PropsetError else check_statuses ss)"

definition set_properties ::
  "env \<Rightarrow> xml list \<Rightarrow> 'a dav_object_scheme \<Rightarrow> client \<Rightarrow> (error + unit) \<times> client" where
  "set_properties env props self c =
     (let root = add (elem ''{DAV:}propertyupdate'')
                   [add (elem ''{DAV:}set'') [add (elem ''{DAV:}prop'') props]]
      in case query env (Some root) 0 Proppatch None None self c of
           (Inl e, c') \<Rightarrow> (Inl e, c')
         | (Inr r, c') \<Rightarrow>
             (case tree r of
                None \<Rightarrow> (Inl AttributeError, c')
              | Some t \<Rightarrow> (check_statuses (findall t Status_tag), c')))"

text \<open>\<^verbatim>\<open>delete\<close>: nothing is sent when the object has no URL.\<close>

definition delete :: "env \<Rightarrow> 'a dav_object_scheme \<Rightarrow> client \<Rightarrow> (error + unit) \<times> client" where
  "delete env self c =
     (case obj_url self of
        None \<Rightarrow> (Inr (), c)
      | Some u \<Rightarrow>
          (let (r, c') = issue env \<lparr>verb = Delete, target = Some u, payload = TextBody [],
                                    depth = None, req_headers = []\<rparr> c
           in if status r \<notin> {200, 204, 404} then (Inl DeleteError, c') else (Inr (), c')))"

section \<open>\<^verbatim>\<open>Calendar\<close>\<close>

text \<open>The body of the MKCALENDAR request, as \<^verbatim>\<open>Calendar._create\<close> composes it.\<close>

definition mkcalendar_body :: "string option \<Rightarrow> string list option \<Rightarrow> xml" where
  "mkcalendar_body nm sccs =
     (let ty = add (elem ResourceType_tag)
                 [add (elem ''{DAV:}collection'') [elem (caldav_ns ''calendar'')]];
          prop = add (elem ''{DAV:}prop'') [ty];
          prop1 = (case nm of None \<Rightarrow> prop
                   | Some n \<Rightarrow> if n \<noteq> [] then add prop [DisplayName n] else prop);
          prop2 = (case sccs of None \<Rightarrow> prop1
                   | Some l \<Rightarrow>
                       if l \<noteq> [] then
                         add prop1 [add (elem (caldav_ns ''supported-calendar-component-set''))
                                      (map (named (caldav_ns ''comp'')) l)]
                       else prop1)
      in add (elem (caldav_ns ''mkcalendar'')) [add (elem ''{DAV:}set'') [prop2]])"

text \<open>
  \<^verbatim>\<open>try: self.set_properties([display_name])  except: self.delete(); raise\<close>.
  An exception of \<^verbatim>\<open>delete\<close> leaves the handler in place of the one caught.
\<close>

definition set_name_or_rollback ::
  "env \<Rightarrow> string \<Rightarrow> 'a dav_object_scheme \<Rightarrow> client \<Rightarrow> (error + unit) \<times> client" where
  "set_name_or_rollback env n self c =
     (case set_properties env [DisplayName n] self c of
        (Inr u, c') \<Rightarrow> (Inr u, c')
      | (Inl e, c') \<Rightarrow>
          (case delete env self c' of
             (Inl e', c'') \<Rightarrow> (Inl e', c'')
           | (Inr _, c'') \<Rightarrow> (Inl e, c'')))"

text \<open>
  \<^verbatim>\<open>Calendar._create\<close>. The object is returned with the fields assigned up to the point
  reached, also beside an error. The probe of the name-based URL is a plain request
  (\<open>Get\<close>); a 404 keeps the id-based URL.
\<close>

definition Calendar_create ::
  "env \<Rightarrow> string option \<Rightarrow> string option \<Rightarrow> string list option \<Rightarrow> dav_object \<Rightarrow> client \<Rightarrow>
   (error + unit) \<times> dav_object \<times> client" where
  "Calendar_create env nm i sccs self c =
     (let i' = (case i of None \<Rightarrow> uuid1 env | Some x \<Rightarrow> x);
          self1 = self\<lparr>obj_id := Some i'\<rparr>
      in case parent_url self1 of
           None \<Rightarrow> (Inl AttributeError, self1, c)
         | Some pu \<Rightarrow>
             (let pth = join env pu (Some i');
                  self2 = self1\<lparr>obj_url := Some pth\<rparr>
              in case query env (Some (mkcalendar_body nm sccs)) 0 Mkcalendar (Some pth) (Some 201)
                        self2 c of
                   (Inl e, c1) \<Rightarrow> (Inl e, self2, c1)
                 | (Inr r, c1) \<Rightarrow>
                     (case (case nm of
                              None \<Rightarrow> (Inr (), c1)
                            | Some n \<Rightarrow>
                                if n \<noteq> [] then set_name_or_rollback env n self2 c1
                                else (Inr (), c1)) of
                        (Inl e, c2) \<Rightarrow> (Inl e, self2, c2)
                      | (Inr _, c2) \<Rightarrow>
                          (let zimbra_url = join env pu nm;
                               (ret, c3) = issue env \<lparr>verb = Get, target = Some zimbra_url,
                                             payload = TextBody [], depth = None,
                                             req_headers = []\<rparr> c2
                           in if status ret = 404 then (Inr (), self2, c3)
                              else (Inr (), self2\<lparr>obj_url := Some zimbra_url\<rparr>, c3)))))"

text \<open>\<^verbatim>\<open>Calendar.save\<close>: a calendar without URL is created, then its URL gets its slash.\<close>

definition Calendar_save ::
  "env \<Rightarrow> dav_object \<Rightarrow> client \<Rightarrow> (error + unit) \<times> dav_object \<times> client" where
  "Calendar_save env self c =
     (if obj_url self = None then
        (case Calendar_create env (obj_name self) (obj_id self) (extra_init_options self) self c of
           (Inl e, self', c') \<Rightarrow> (Inl e, self', c')
         | (Inr _, self', c') \<Rightarrow>
             (case obj_url self' of
                None \<Rightarrow> (Inl AttributeError, self', c')
              | Some u \<Rightarrow>
                  if \<not> endswith u ''/'' then (Inr (), self'\<lparr>obj_url := Some (u @ ''/'')\<rparr>, c')
                  else (Inr (), self', c')))
      else (Inr (), self, c))"

section \<open>\<^verbatim>\<open>CalendarObjectResource\<close>\<close>

record resource = dav_object +
  priv_data :: "string option"
  priv_instance :: "vobject option"

text \<open>
  \<^verbatim>\<open>set_data\<close> stores the fixed text, then parses it: when the reader raises, the text
  is already stored and the instance is the old one. \<^verbatim>\<open>set_instance\<close> stores the
  instance, then its serialization: the stored object is the one \<^verbatim>\<open>serialize\<close> worked on,
  and when \<^verbatim>\<open>serialize\<close> raises the text is the old one.
\<close>

definition set_data :: "env \<Rightarrow> string \<Rightarrow> resource \<Rightarrow> (error + unit) \<times> resource" where
  "set_data env d self =
     (let self1 = self\<lparr>priv_data := Some (vcal_fix env d)\<rparr>
      in case readOne env (vcal_fix env d) of
           None \<Rightarrow> (Inl ParseError, self1)
         | Some inst \<Rightarrow> (Inr (), self1\<lparr>priv_instance := Some inst\<rparr>))"

definition get_data :: "resource \<Rightarrow> string option" where
  "get_data self = priv_data self"

definition set_instance :: "env \<Rightarrow> vobject \<Rightarrow> resource \<Rightarrow> (error + unit) \<times> resource" where
  "set_instance env inst self =
     (case serialize env inst of
        (Inl e, inst') \<Rightarrow> (Inl e, self\<lparr>priv_instance := Some inst'\<rparr>)
      | (Inr s, inst') \<Rightarrow> (Inr (), self\<lparr>priv_instance := Some inst', priv_data := Some s\<rparr>))"

definition get_instance :: "resource \<Rightarrow> vobject option" where
  "get_instance self = priv_instance self"

text \<open>\<^verbatim>\<open>CalendarObjectResource.__init__\<close>: the data, when given, goes through \<open>set_data\<close>.\<close>

definition CalendarObjectResource_init ::
  "env \<Rightarrow> client \<Rightarrow> url option \<Rightarrow> string option \<Rightarrow> url option \<Rightarrow> string option \<Rightarrow>
   (error + unit) \<times> resource" where
  "CalendarObjectResource_init env c u d parent i =
     (let b = DAVObject_init env c u parent None i None;
          self = \<lparr>obj_id = obj_id b, obj_url = obj_url b, obj_name = obj_name b,
                  parent_url = parent_url b, extra_init_options = extra_init_options b,
                  priv_data = None, priv_instance = None\<rparr>
      in case d of None \<Rightarrow> (Inr (), self) | Some x \<Rightarrow> set_data env x self)"

text \<open>
  \<^verbatim>\<open>re.search('(/|^)([^/]*).ics', s).group(2)\<close>, as the backtracking matcher of Python
  computes it. \<open>dot_ics\<close>: the tail \<^verbatim>\<open>.ics\<close> of the pattern matches at the head of the
  string (the dot is any character but a newline). \<open>group2\<close>: \<^verbatim>\<open>([^/]*).ics\<close> matches at
  the head, the star taking the longest run first and giving back one character at a
  time; the result is the group. \<open>re_search\<close>: the start positions from left to right, at
  each one the alternative \<^verbatim>\<open>/\<close> before \<^verbatim>\<open>^\<close>, which matches at the start of the string
  only (the flag).
\<close>

definition dot_ics :: "string \<Rightarrow> bool" where
  "dot_ics s = (case s of [] \<Rightarrow> False | c # rest \<Rightarrow> c \<noteq> CHR 0x0A \<and> take 3 rest = ''ics'')"

fun group2 :: "string \<Rightarrow> string option" where
  "group2 [] = None"
| "group2 (c # cs) =
     (case (if c \<noteq> CHR ''/'' then group2 cs else None) of
        Some g \<Rightarrow> Some (c # g)
      | None \<Rightarrow> if dot_ics (c # cs) then Some [] else None)"

fun re_search :: "bool \<Rightarrow> string \<Rightarrow> string option" where
  "re_search at_start [] = None"
| "re_search at_start (c # cs) =
     (case (if c = CHR ''/'' then group2 cs else None) of
        Some g \<Rightarrow> Some g
      | None \<Rightarrow>
          (case (if at_start then group2 (c # cs) else None) of
             Some g \<Rightarrow> Some g
           | None \<Rightarrow> re_search False cs))"

text \<open>
  The loop of \<^verbatim>\<open>_create\<close> over \<^verbatim>\<open>('vevent', 'vtodo', 'vjournal', 'vfreebusy')\<close>: the
  first component the instance has gives the id; a component without UID raises
  \<^verbatim>\<open>AttributeError\<close>; without instance or component the id stays \<^verbatim>\<open>None\<close>.
\<close>

definition uid_of_instance :: "vobject option \<Rightarrow> error + string option" where
  "uid_of_instance inst =
     (case inst of
        None \<Rightarrow> Inr None
      | Some v \<Rightarrow>
          (case List.find (\<lambda>x. x \<noteq> None) [vevent v, vtodo v, vjournal v, vfreebusy v] of
             Some (Some component) \<Rightarrow>
               (case uid component of None \<Rightarrow> Inl AttributeError | Some x \<Rightarrow> Inr (Some x))
           | _ \<Rightarrow> Inr None))"

text \<open>The first header \<^verbatim>\<open>location\<close>; \<^verbatim>\<open>[...][0]\<close> raises \<^verbatim>\<open>IndexError\<close> when there is none.\<close>

definition location_header :: "(string \<times> string) list \<Rightarrow> error + string" where
  "location_header hs =
     (case filter (\<lambda>x. fst x = ''location'') hs of [] \<Rightarrow> Inl IndexError | x # _ \<Rightarrow> Inr (snd x))"

text \<open>
  The id \<^verbatim>\<open>_create\<close> works with: the one given; without one, group 2 of the search when
  there is a path ending in \<^verbatim>\<open>.ics\<close> (\<^verbatim>\<open>.group(2)\<close> raises \<^verbatim>\<open>AttributeError\<close> when the
  search finds nothing), and the UID of the instance otherwise.
\<close>

definition derive_id :: "string option \<Rightarrow> string option \<Rightarrow> resource \<Rightarrow> error + string option" where
  "derive_id i pth self =
     (case i of
        Some x \<Rightarrow> Inr (Some x)
      | None \<Rightarrow>
          (case pth of
             None \<Rightarrow> uid_of_instance (get_instance self)
           | Some p \<Rightarrow>
               if endswith p ''.ics'' then
                 (case re_search True p of None \<Rightarrow> Inl AttributeError | Some g \<Rightarrow> Inr (Some g))
               else uid_of_instance (get_instance self)))"

text \<open>The headers of the PUT request.\<close>

definition put_headers :: "(string \<times> string) list" where
  "put_headers =
     [(''Content-Type'', ''text/calendar; charset='' @ [CHR 0x22] @ ''utf-8'' @ [CHR 0x22])]"

text \<open>
  \<^verbatim>\<open>CalendarObjectResource._create\<close>. \<^verbatim>\<open>id + ".ics"\<close> raises \<^verbatim>\<open>TypeError\<close> when the id is
  \<^verbatim>\<open>None\<close>. URL and id are assigned at the end, so an error leaves the object as it was.
\<close>

definition Resource_create ::
  "env \<Rightarrow> string \<Rightarrow> string option \<Rightarrow> string option \<Rightarrow> resource \<Rightarrow> client \<Rightarrow>
   (error + unit) \<times> resource \<times> client" where
  "Resource_create env d i pth self c =
     (case derive_id i pth self of
        Inl e \<Rightarrow> (Inl e, self, c)
      | Inr i' \<Rightarrow>
          (case (case pth of
                   Some p \<Rightarrow> Inr p
                 | None \<Rightarrow> (case i' of None \<Rightarrow> Inl TypeError | Some x \<Rightarrow> Inr (x @ ''.ics''))) of
             Inl e \<Rightarrow> (Inl e, self, c)
           | Inr p \<Rightarrow>
               (case parent_url self of
                  None \<Rightarrow> (Inl AttributeError, self, c)
                | Some pu \<Rightarrow>
                    (let p1 = join env pu (Some p);
                         (r, c') = issue env \<lparr>verb = Put, target = Some p1, payload = TextBody d,
                                     depth = None, req_headers = put_headers\<rparr> c
                     in case (if status r = 302 then location_header (headers r)
                              else if \<not> (status r \<in> {204, 201}) then Inl PutError
                              else Inr p1) of
                          Inl e \<Rightarrow> (Inl e, self, c')
                        | Inr p2 \<Rightarrow> (Inr (), self\<lparr>obj_url := Some p2, obj_id := i'\<rparr>, c')))))"

text \<open>
  \<^verbatim>\<open>CalendarObjectResource.save\<close>: nothing at all when there is no instance. Otherwise
  \<^verbatim>\<open>path = self.url.path if self.url else None\<close>, then the arguments of \<^verbatim>\<open>_create\<close> are
  evaluated: \<^verbatim>\<open>self._instance.serialize()\<close> runs before \<^verbatim>\<open>_create\<close> reads the instance, so
  \<^verbatim>\<open>_create\<close> sees the instance as \<^verbatim>\<open>serialize\<close> left it, and an exception of
  \<^verbatim>\<open>serialize\<close> ends the call before any request.
\<close>

definition Resource_save ::
  "env \<Rightarrow> resource \<Rightarrow> client \<Rightarrow> (error + unit) \<times> resource \<times> client" where
  "Resource_save env self c =
     (case priv_instance self of
        None \<Rightarrow> (Inr (), self, c)
      | Some inst \<Rightarrow>
          (let pth = (case obj_url self of
                        None \<Rightarrow> None
                      | Some u \<Rightarrow> if url_bool env u then Some (path env u) else None)
           in case serialize env inst of
                (Inl e, inst') \<Rightarrow> (Inl e, self\<lparr>priv_instance := Some inst'\<rparr>, c)
              | (Inr d, inst') \<Rightarrow>
                  Resource_create env d (obj_id self) pth (self\<lparr>priv_instance := Some inst'\<rparr>) c))"

section \<open>\<^verbatim>\<open>Calendar.event_by_uid\<close>\<close>

definition uid_query :: "string \<Rightarrow> xml" where
  "uid_query u =
     (let prop = add (elem ''{DAV:}prop'') [elem CalendarData_tag];
          match = Element (caldav_ns ''text-match'') [] (Some u) [];
          propf = add (named (caldav_ns ''prop-filter'') ''UID'') [match];
          vevent_filter = add (named (caldav_ns ''comp-filter'') ''VEVENT'') [propf];
          vcalendar = add (named (caldav_ns ''comp-filter'') ''VCALENDAR'') [vevent_filter];
          filter_el = add (elem (caldav_ns ''filter'')) [vcalendar]
      in add (elem (caldav_ns ''calendar-query'')) [prop, filter_el])"

text \<open>
  The two tests on the status after \<^verbatim>\<open>_query\<close> are those of the source. The event is
  \<^verbatim>\<open>Event(self.client, url=URL.objectify(href), data=data, parent=self)\<close>.
\<close>

definition event_by_uid ::
  "env \<Rightarrow> string \<Rightarrow> dav_object \<Rightarrow> client \<Rightarrow> (error + resource) \<times> client" where
  "event_by_uid env u self c =
     (case query env (Some (uid_query u)) 1 Report None None self c of
        (Inl e, c') \<Rightarrow> (Inl e, c')
      | (Inr rsp, c') \<Rightarrow>
          if status rsp = 404 then (Inl NotFoundError, c')
          else if status rsp = 400 then (Inl ReportError, c')
          else
            (case tree rsp of
               None \<Rightarrow> (Inl AttributeError, c')
             | Some t \<Rightarrow>
                 (case xfind t Response_tag of
                    None \<Rightarrow> (Inl NotFoundError, c')
                  | Some r \<Rightarrow>
                      (case xfind r Href_tag of
                         None \<Rightarrow> (Inl AttributeError, c')
                       | Some h \<Rightarrow>
                           (case xfind r CalendarData_tag of
                              None \<Rightarrow> (Inl AttributeError, c')
                            | Some d \<Rightarrow>
                                (case CalendarObjectResource_init env c' (xtext h) (xtext d)
                                        (obj_url self) None of
                                   (Inl e, ev) \<Rightarrow> (Inl e, c')
                                 | (Inr _, ev) \<Rightarrow> (Inr ev, c')))))))"

section \<open>\<^verbatim>\<open>Principal.calendar_home_set\<close>\<close>

record principal = dav_object +
  priv_calendar_home_set :: "dav_object option"

text \<open>The setter takes a \<^verbatim>\<open>CalendarSet\<close> or what \<^verbatim>\<open>URL.objectify\<close> takes.\<close>

datatype home_set_arg = AsCalendarSet dav_object | AsUrl "string option"

text \<open>
  \<^verbatim>\<open>CalendarSet(self.client, self.client.url.join(sanitized_url))\<close> is built by
  \<^verbatim>\<open>DAVObject.__init__\<close> with the client as the setter leaves it. \<^verbatim>\<open>.hostname\<close> of
  \<^verbatim>\<open>URL.objectify(None)\<close> raises \<^verbatim>\<open>AttributeError\<close>.
\<close>

definition set_calendar_home_set ::
  "env \<Rightarrow> home_set_arg \<Rightarrow> principal \<Rightarrow> client \<Rightarrow> (error + unit) \<times> principal \<times> client" where
  "set_calendar_home_set env arg self c =
     (case arg of
        AsCalendarSet cs \<Rightarrow> (Inr (), self\<lparr>priv_calendar_home_set := Some cs\<rparr>, c)
      | AsUrl v \<Rightarrow>
          (case v of
             None \<Rightarrow> (Inl AttributeError, self, c)
           | Some sanitized_url \<Rightarrow>
               (let c' = (if truthy (hostname env sanitized_url)
                             \<and> hostname env sanitized_url \<noteq> hostname env (client_url c)
                          then c\<lparr>client_url := sanitized_url\<rparr> else c)
                in (Inr (),
                    self\<lparr>priv_calendar_home_set :=
                      Some (DAVObject_init env c'
                              (Some (join env (client_url c') (Some sanitized_url)))
                              None None None None)\<rparr>,
                    c'))))"

text \<open>The getter: a property query and the setter when nothing is cached yet.\<close>

definition calendar_home_set ::
  "env \<Rightarrow> principal \<Rightarrow> client \<Rightarrow> (error + dav_object option) \<times> principal \<times> client" where
  "calendar_home_set env self c =
     (if priv_calendar_home_set self = None then
        (case get_properties env [elem CalendarHomeSet_tag] 0 self c of
           (Inl e, c1) \<Rightarrow> (Inl e, self, c1)
         | (Inr chs, c1) \<Rightarrow>
             (case map_of chs CalendarHomeSet_tag of
                None \<Rightarrow> (Inl KeyError, self, c1)
              | Some v \<Rightarrow>
                  (case set_calendar_home_set env (AsUrl v) self c1 of
                     (Inl e, self', c2) \<Rightarrow> (Inl e, self', c2)
                   | (Inr _, self', c2) \<Rightarrow> (Inr (priv_calendar_home_set self'), self', c2))))
      else (Inr (priv_calendar_home_set self), self, c))"

section \<open>A concrete environment for evaluation\<close>

text \<open>
  Modelled from the spec: \<^verbatim>\<open>caldav.lib.url\<close> is not among the sources. For the examples
  that need one environment, URLs are split into scheme, authority and path in the
  standard way: the host is the authority without user info and port, \<open>url_join\<close>
  resolves an absolute URL to itself, an absolute path against the scheme and authority
  of the base, and anything else below the base; \<^verbatim>\<open>None\<close> and the empty text give the
  base.
\<close>

fun scheme_split :: "string \<Rightarrow> (string \<times> string) option" where
  "scheme_split [] = None"
| "scheme_split (c # cs) =
     (if take 3 (c # cs) = ''://'' then Some ([], drop 2 cs)
      else map_option (\<lambda>(a, b). (c # a, b)) (scheme_split cs))"

definition url_origin :: "url \<Rightarrow> string" where
  "url_origin u =
     (case scheme_split u of
        None \<Rightarrow> []
      | Some (sch, r) \<Rightarrow> sch @ ''://'' @ takeWhile (\<lambda>c. c \<noteq> CHR ''/'') r)"

definition url_path :: "url \<Rightarrow> string" where
  "url_path u =
     (case scheme_split u of None \<Rightarrow> u | Some (sch, r) \<Rightarrow> dropWhile (\<lambda>c. c \<noteq> CHR ''/'') r)"

definition url_hostname :: "url \<Rightarrow> string option" where
  "url_hostname u =
     (case scheme_split u of
        None \<Rightarrow> None
      | Some (sch, r) \<Rightarrow>
          (let auth = takeWhile (\<lambda>c. c \<noteq> CHR ''/'') r;
               hostport = (if CHR ''@'' \<in> set auth
                           then drop 1 (dropWhile (\<lambda>c. c \<noteq> CHR ''@'') auth) else auth)
           in Some (takeWhile (\<lambda>c. c \<noteq> CHR '':'') hostport)))"

definition url_join :: "url \<Rightarrow> string option \<Rightarrow> url" where
  "url_join base p =
     (case p of
        None \<Rightarrow> base
      | Some q \<Rightarrow>
          if q = [] then base
          else if scheme_split q \<noteq> None then q
          else if take 1 q = ''/'' then url_origin base @ q
          else if endswith base ''/'' then base @ q
          else base @ ''/'' @ q)"

definition url_strip_trailing_slash :: "url \<Rightarrow> url" where
  "url_strip_trailing_slash u = (if endswith u ''/'' then butlast u else u)"

text \<open>
  A codec for the examples: the text \<^verbatim>\<open>VEVENT:\<close> followed by a UID stands for the object
  with that one event.
\<close>

definition event_with_uid :: "string \<Rightarrow> vobject" where
  "event_with_uid u =
     \<lparr>vevent = Some \<lparr>uid = Some u\<rparr>, vtodo = None, vjournal = None, vfreebusy = None, other = []\<rparr>"

definition toy_readOne :: "string \<Rightarrow> vobject option" where
  "toy_readOne s = (if take 7 s = ''VEVENT:'' then Some (event_with_uid (drop 7 s)) else None)"

definition toy_serialize :: "vobject \<Rightarrow> (error + string) \<times> vobject" where
  "toy_serialize v =
     (Inr (''VEVENT:'' @
            (case vevent v of None \<Rightarrow> [] | Some e \<Rightarrow> (case uid e of None \<Rightarrow> [] | Some u \<Rightarrow> u))),
      v)"

text \<open>
  The example environment answers each request by \<open>f\<close> of that request alone. Its error
  table gives REPORT the \<^verbatim>\<open>ReportError\<close> of the spec's taxonomy.
\<close>

definition example_env :: "(request \<Rightarrow> response) \<Rightarrow> env" where
  "example_env f =
     \<lparr>server = (\<lambda>rs. f (last rs)),
      exception_by_method =
        (\<lambda>m. case m of Report \<Rightarrow> ReportError | Put \<Rightarrow> PutError | Delete \<Rightarrow> DeleteError
              | _ \<Rightarrow> DAVError),
      join = url_join, strip_trailing_slash = url_strip_trailing_slash,
      hostname = url_hostname, path = url_path, url_bool = (\<lambda>u. u \<noteq> []),
      vcal_fix = (\<lambda>s. s), readOne = toy_readOne, serialize = toy_serialize,
      uuid1 = ''6f1c2f0e-0000-11ee-be56-0242ac120002''\<rparr>"

definition plain :: "int \<Rightarrow> response" where
  "plain st = \<lparr>status = st, headers = [], raw = [], tree = None\<rparr>"

definition entry :: "string \<Rightarrow> string \<Rightarrow> xml list \<Rightarrow> xml" where
  "entry href st props =
     Element Response_tag [] None
       [Element Href_tag [] (Some href) [],
        Element ''{DAV:}propstat'' [] None
          [Element ''{DAV:}prop'' [] None props, Element Status_tag [] (Some st) []]]"

definition multistatus :: "xml list \<Rightarrow> response" where
  "multistatus es =
     \<lparr>status = 207, headers = [], raw = [],
      tree = Some (Element ''{DAV:}multistatus'' [] None es)\<rparr>"

definition calendar_type :: xml where
  "calendar_type =
     Element ResourceType_tag [] None
       [Element ''{DAV:}collection'' [] None [], Element (caldav_ns ''calendar'') [] None []]"

text \<open>An object and a client for the examples.\<close>

definition example_object :: "url option \<Rightarrow> url option \<Rightarrow> dav_object" where
  "example_object u parent =
     \<lparr>obj_id = None, obj_url = u, obj_name = None, parent_url = parent,
      extra_init_options = None\<rparr>"

definition example_client :: client where
  "example_client = \<lparr>client_url = ''https://dav.example.com/dav/'', sent = []\<rparr>"

text \<open>The one request \<open>query_properties\<close> sends.\<close>

definition propfind_request :: "xml list \<Rightarrow> int \<Rightarrow> url option \<Rightarrow> request" where
  "propfind_request props dp u =
     \<lparr>verb = Propfind, target = u,
      payload = (if length props > 0
                 then XmlBody (add (elem ''{DAV:}propfind'') [add (elem ''{DAV:}prop'') props])
                 else TextBody []),
      depth = Some dp, req_headers = []\<rparr>"

text \<open>
  The resource type the property map holds for a path (\<^verbatim>\<open>properties[path][tag]\<close>).
\<close>

definition resource_type_of :: "properties \<Rightarrow> string option \<Rightarrow> string option" where
  "resource_type_of m p =
     (case map_of m p of
        None \<Rightarrow> None
      | Some vals \<Rightarrow> (case map_of vals ResourceType_tag of None \<Rightarrow> None | Some v \<Rightarrow> v))"

text \<open>A resource type without child element, as a plain file has it.\<close>

definition plain_type :: xml where
  "plain_type = Element ResourceType_tag [] None []"

text \<open>A URL with the slash \<^verbatim>\<open>Calendar.save\<close> appends when it is missing.\<close>

definition with_slash :: "url \<Rightarrow> url" where
  "with_slash u = (if endswith u ''/'' then u else u @ ''/'')"

text \<open>The DELETE request \<^verbatim>\<open>delete\<close> sends for an object at \<open>u\<close>.\<close>

definition delete_request :: "url \<Rightarrow> request" where
  "delete_request u =
     \<lparr>verb = Delete, target = Some u, payload = TextBody [], depth = None, req_headers = []\<rparr>"

text \<open>
  A server for the calendar examples: MKCALENDAR is answered 201, PROPPATCH by a
  multistatus with the given status line, DELETE and the probe by the given statuses.
  \<open>new_calendar\<close> is an unbound calendar below the example client's URL.
\<close>

definition calendar_server :: "int \<Rightarrow> string \<Rightarrow> int \<Rightarrow> request \<Rightarrow> response" where
  "calendar_server probe proppatch_line del rq =
     (case verb rq of
        Mkcalendar \<Rightarrow> plain 201
      | Proppatch \<Rightarrow> multistatus [entry ''/dav/work'' proppatch_line []]
      | Delete \<Rightarrow> plain del
      | _ \<Rightarrow> plain probe)"

definition new_calendar :: "string option \<Rightarrow> string option \<Rightarrow> dav_object" where
  "new_calendar nm i =
     \<lparr>obj_id = i, obj_url = None, obj_name = nm,
      parent_url = Some ''https://dav.example.com/dav/'', extra_init_options = None\<rparr>"

text \<open>The REPORT request \<^verbatim>\<open>event_by_uid\<close> sends, and a calendar-data element.\<close>

definition report_request :: "string \<Rightarrow> url option \<Rightarrow> request" where
  "report_request u target_url =
     \<lparr>verb = Report, target = target_url, payload = XmlBody (uid_query u), depth = Some 1,
      req_headers = []\<rparr>"

definition calendar_data :: "string \<Rightarrow> xml" where
  "calendar_data s = Element CalendarData_tag [] (Some s) []"

text \<open>
  For the examples of calendar object resources: a server that answers every request
  with the given status and headers, and an event below the calendar
  \<^verbatim>\<open>https://dav.example.com/dav/physics/\<close>.
\<close>

definition put_server :: "int \<Rightarrow> (string \<times> string) list \<Rightarrow> request \<Rightarrow> response" where
  "put_server st hs rq = \<lparr>status = st, headers = hs, raw = [], tree = None\<rparr>"

definition example_event :: "url option \<Rightarrow> string option \<Rightarrow> vobject option \<Rightarrow> resource" where
  "example_event u d inst =
     \<lparr>obj_id = None, obj_url = u, obj_name = None,
      parent_url = Some ''https://dav.example.com/dav/physics/'', extra_init_options = None,
      priv_data = d, priv_instance = inst\<rparr>"

text \<open>
  For the examples of the principal: a principal and a server whose PROPFIND answer names
  the given href as calendar-home-set.
\<close>

definition example_principal :: principal where
  "example_principal =
     \<lparr>obj_id = None, obj_url = Some ''https://dav.example.com/principals/u1/'', obj_name = None,
      parent_url = None, extra_init_options = None, priv_calendar_home_set = None\<rparr>"

definition home_set_server :: "string \<Rightarrow> request \<Rightarrow> response" where
  "home_set_server href rq =
     multistatus [entry ''/principals/u1/'' ''HTTP/1.1 200 OK''
       [Element CalendarHomeSet_tag [] None [Element Href_tag [] (Some href) []]]]"

section \<open>Evaluation rules\<close>

text \<open>The definitions a concrete run unfolds, gathered for the examples below.\<close>

lemmas xml_eval = findall_def xfind_def xfind_any_def endswith_def entry_def multistatus_def
  calendar_type_def caldav_ns_def elem_def add_def named_def DisplayName_def Response_tag_def
  Status_tag_def Href_tag_def ResourceType_tag_def DisplayName_tag_def CalendarData_tag_def
  CalendarHomeSet_tag_def

lemmas status_eval = status_line_def status_200_def status_404_def status_other_def href_of_def
  entry_ok_def

lemmas url_eval = url_join_def url_path_def url_hostname_def url_origin_def
  url_strip_trailing_slash_def

lemmas run_eval = example_env_def example_object_def example_client_def issue_def query_def
  query_properties_def plain_def Let_def

section \<open>Multistatus parsing\<close>

lemma handle_props_total:
  "list_all (\<lambda>p. xfind r (xtag p) \<noteq> None) props \<Longrightarrow> \<exists>d. handle_props r ty w props d0 = Inr d"
proof (induction props arbitrary: d0)
  case Nil
  then show ?case by simp
next
  case (Cons p ps)
  then obtain t where t: "xfind r (xtag p) = Some t" by auto
  have "\<exists>v. prop_value r ty w p = Inr v"
    by (simp add: prop_value_def t split: option.splits)
  then obtain v where v: "prop_value r ty w p = Inr v" ..
  from Cons show ?case by (simp add: v)
qed

lemma status_cases:
  "status_line r = Some s \<Longrightarrow> status_200 r \<or> status_404 r \<or> status_other r"
  by (auto simp: status_200_def status_404_def status_other_def)

lemma handle_responses_Inr:
  "handle_responses ty w props rs acc = Inr m \<Longrightarrow>
     (\<forall>r\<in>set rs. status_200 r \<or> status_404 r) \<and>
     fst ` set m = fst ` set acc \<union> href_of ` {r \<in> set rs. status_200 r}"
proof (induction rs arbitrary: acc)
  case Nil
  then show ?case by simp
next
  case (Cons r rs)
  from Cons.prems obtain st s where st: "xfind r Status_tag = Some st" and s: "xtext st = Some s"
    by (auto split: option.splits)
  have line: "status_line r = Some s" by (simp add: status_line_def st s)
  show ?case
  proof (cases "endswith s ''200 OK''")
    case False
    with Cons.prems st s have nf: "endswith s ''404 Not Found''"
      and rest: "handle_responses ty w props rs acc = Inr m"
      by (auto split: if_splits)
    have r404: "status_404 r" and n200: "\<not> status_200 r"
      using False nf by (simp_all add: status_404_def status_200_def line)
    from Cons.IH [OF rest] r404 n200 show ?thesis by auto
  next
    case True
    with Cons.prems st s obtain h d where h: "xfind r Href_tag = Some h"
      and rest: "handle_responses ty w props rs (AList.update (xtext h) d acc) = Inr m"
      by (auto split: option.splits sum.splits)
    have r200: "status_200 r" using True by (simp add: status_200_def line)
    have hr: "href_of r = xtext h" by (simp add: href_of_def h)
    have split: "{x \<in> set (r # rs). status_200 x} = insert r {x \<in> set rs. status_200 x}"
      using r200 by auto
    from Cons.IH [OF rest] have all: "\<forall>x\<in>set rs. status_200 x \<or> status_404 x"
      and keys: "fst ` set m =
        fst ` set (AList.update (xtext h) d acc) \<union> href_of ` {x \<in> set rs. status_200 x}"
      by simp_all
    have "fst ` set m = fst ` set acc \<union> href_of ` {x \<in> set (r # rs). status_200 x}"
      unfolding split keys dom_update image_insert hr by blast
    with all r200 show ?thesis by simp
  qed
qed

lemma handle_responses_ReportError:
  "list_all (entry_ok props) rs \<Longrightarrow> \<exists>r\<in>set rs. status_other r \<Longrightarrow>
     handle_responses ty w props rs acc = Inl ReportError"
proof (induction rs arbitrary: acc)
  case Nil
  then show ?case by simp
next
  case (Cons r rs)
  from Cons.prems(1) have ok: "entry_ok props r" and oks: "list_all (entry_ok props) rs" by simp_all
  from ok obtain s where line: "status_line r = Some s" by (auto simp: entry_ok_def)
  then obtain st where st: "xfind r Status_tag = Some st" and s: "xtext st = Some s"
    by (auto simp: status_line_def split: option.splits)
  consider (a) "status_200 r" | (b) "status_404 r" | (c) "status_other r"
    using status_cases [OF line] by blast
  then show ?case
  proof cases
    case a
    then have e: "endswith s ''200 OK''" by (simp add: status_200_def line)
    from a have "\<not> status_other r" by (simp add: status_other_def status_200_def line)
    with Cons.prems(2) have ex: "\<exists>r\<in>set rs. status_other r" by auto
    from ok a obtain h where h: "xfind r Href_tag = Some h"
      and ps: "list_all (\<lambda>p. xfind r (xtag p) \<noteq> None) props"
      by (auto simp: entry_ok_def)
    from handle_props_total [OF ps] obtain d where d: "handle_props r ty w props [] = Inr d" by blast
    show ?thesis using Cons.IH [OF oks ex] by (simp add: st s e h d)
  next
    case b
    then have e: "\<not> endswith s ''200 OK''" and f: "endswith s ''404 Not Found''"
      by (simp_all add: status_404_def line)
    from b have "\<not> status_other r" by (simp add: status_other_def status_404_def line)
    with Cons.prems(2) have ex: "\<exists>r\<in>set rs. status_other r" by auto
    show ?thesis using Cons.IH [OF oks ex] by (simp add: st s e f)
  next
    case c
    then have e: "\<not> endswith s ''200 OK''" and f: "\<not> endswith s ''404 Not Found''"
      by (simp_all add: status_other_def line)
    show ?thesis by (simp add: st s e f)
  qed
qed

lemma handle_responses_total:
  "list_all (entry_ok props) rs \<Longrightarrow> \<not> (\<exists>r\<in>set rs. status_other r) \<Longrightarrow>
     \<exists>m. handle_responses ty w props rs acc = Inr m"
proof (induction rs arbitrary: acc)
  case Nil
  then show ?case by simp
next
  case (Cons r rs)
  from Cons.prems(1) have ok: "entry_ok props r" and oks: "list_all (entry_ok props) rs" by simp_all
  from Cons.prems(2) have no: "\<not> status_other r" and nos: "\<not> (\<exists>r\<in>set rs. status_other r)" by simp_all
  from ok obtain s where line: "status_line r = Some s" by (auto simp: entry_ok_def)
  then obtain st where st: "xfind r Status_tag = Some st" and s: "xtext st = Some s"
    by (auto simp: status_line_def split: option.splits)
  show ?case
  proof (cases "status_200 r")
    case True
    then have e: "endswith s ''200 OK''" by (simp add: status_200_def line)
    from ok True obtain h where h: "xfind r Href_tag = Some h"
      and ps: "list_all (\<lambda>p. xfind r (xtag p) \<noteq> None) props"
      by (auto simp: entry_ok_def)
    from handle_props_total [OF ps] obtain d where d: "handle_props r ty w props [] = Inr d" by blast
    show ?thesis using Cons.IH [OF oks nos] by (simp add: st s e h d)
  next
    case False
    then have e: "\<not> endswith s ''200 OK''" by (simp add: status_200_def line)
    with no have f: "endswith s ''404 Not Found''" by (simp add: status_other_def line)
    show ?thesis using Cons.IH [OF oks nos] by (simp add: st s e f)
  qed
qed

text \<open>
  C1. Whatever multistatus tree the property-response handler processes: when it returns
  a mapping, every \<^verbatim>\<open><response>\<close> entry has a status line ending in \<^verbatim>\<open>200 OK\<close> or in
  \<^verbatim>\<open>404 Not Found\<close>, and the keys of the mapping are exactly the hrefs of the 200 entries,
  so a 404 entry adds nothing. When the entries are well formed, an entry with any other
  status makes the handler raise \<^verbatim>\<open>ReportError\<close>, and without such an entry it returns a
  mapping.
\<close>

theorem C1_handle_prop_response_statuses:
  assumes "tree rsp = Some t"
  shows "(\<forall>m. handle_prop_response rsp props ty w = Inr m \<longrightarrow>
            (\<forall>r\<in>set (findall t Response_tag). status_200 r \<or> status_404 r) \<and>
            fst ` set m = href_of ` {r \<in> set (findall t Response_tag). status_200 r})
       \<and> (list_all (entry_ok props) (findall t Response_tag) \<longrightarrow>
            (if \<exists>r\<in>set (findall t Response_tag). status_other r
             then handle_prop_response rsp props ty w = Inl ReportError
             else \<exists>m. handle_prop_response rsp props ty w = Inr m))"
  using assms handle_responses_Inr [of ty w props "findall t Response_tag" "[]"]
    handle_responses_ReportError [of props "findall t Response_tag" ty w "[]"]
    handle_responses_total [of props "findall t Response_tag" ty w "[]"]
  by (simp add: handle_prop_response_def)

theorem C1_handle_prop_response_witness:
  "handle_prop_response
     (multistatus [entry ''/cal/a/'' ''HTTP/1.1 200 OK'' [calendar_type],
                   entry ''/cal/b/'' ''HTTP/1.1 404 Not Found'' []])
     [elem ResourceType_tag] None Tag
     = Inr [(Some ''/cal/a/'', [(ResourceType_tag, Some ''{DAV:}collection'')])]
   \<and> handle_prop_response
     (multistatus [entry ''/cal/a/'' ''HTTP/1.1 200 OK'' [calendar_type],
                   entry ''/cal/c/'' ''HTTP/1.1 403 Forbidden'' [],
                   entry ''/cal/b/'' ''HTTP/1.1 404 Not Found'' []])
     [elem ResourceType_tag] None Tag = Inl ReportError"
proof -
  let ?es = "[entry ''/cal/a/'' ''HTTP/1.1 200 OK'' [calendar_type],
              entry ''/cal/c/'' ''HTTP/1.1 403 Forbidden'' [],
              entry ''/cal/b/'' ''HTTP/1.1 404 Not Found'' []]"
  let ?t = "Element ''{DAV:}multistatus'' [] None ?es"
  have t: "tree (multistatus ?es) = Some ?t"
    by (simp add: multistatus_def)
  have wf: "list_all (entry_ok [elem ResourceType_tag]) (findall ?t Response_tag)"
    by (simp add: xml_eval status_eval)
  have ex: "\<exists>r\<in>set (findall ?t Response_tag). status_other r"
    by (simp add: xml_eval status_eval)
  have bad: "handle_prop_response (multistatus ?es) [elem ResourceType_tag] None Tag
               = Inl ReportError"
    using C1_handle_prop_response_statuses [OF t, of "[elem ResourceType_tag]" None Tag] wf ex
    by presburger
  have good: "handle_prop_response
     (multistatus [entry ''/cal/a/'' ''HTTP/1.1 200 OK'' [calendar_type],
                   entry ''/cal/b/'' ''HTTP/1.1 404 Not Found'' []])
     [elem ResourceType_tag] None Tag
     = Inr [(Some ''/cal/a/'', [(ResourceType_tag, Some ''{DAV:}collection'')])]"
    by (simp add: xml_eval handle_prop_response_def prop_value_def getattr_what_def)
  from good bad show ?thesis by simp
qed

section \<open>Property lookup for one resource\<close>

lemma handle_responses_value:
  "handle_responses ty w props rs acc = Inr m \<Longrightarrow> map_of m k = Some d \<Longrightarrow>
     map_of acc k = Some d \<or>
     (\<exists>r\<in>set rs. status_200 r \<and> href_of r = k \<and> handle_props r ty w props [] = Inr d)"
proof (induction rs arbitrary: acc)
  case Nil
  then show ?case by simp
next
  case (Cons r rs)
  from Cons.prems(1) obtain st s where st: "xfind r Status_tag = Some st" and s: "xtext st = Some s"
    by (auto split: option.splits)
  have line: "status_line r = Some s" by (simp add: status_line_def st s)
  show ?case
  proof (cases "endswith s ''200 OK''")
    case False
    with Cons.prems(1) st s have rest: "handle_responses ty w props rs acc = Inr m"
      by (auto split: if_splits)
    from Cons.IH [OF rest Cons.prems(2)] show ?thesis by auto
  next
    case True
    with Cons.prems(1) st s obtain h d' where h: "xfind r Href_tag = Some h"
      and d': "handle_props r ty w props [] = Inr d'"
      and rest: "handle_responses ty w props rs (AList.update (xtext h) d' acc) = Inr m"
      by (auto split: option.splits sum.splits)
    have r200: "status_200 r" using True by (simp add: status_200_def line)
    have hr: "href_of r = xtext h" by (simp add: href_of_def h)
    from Cons.IH [OF rest Cons.prems(2)]
    consider (old) "map_of (AList.update (xtext h) d' acc) k = Some d"
      | (new) "\<exists>r\<in>set rs. status_200 r \<and> href_of r = k \<and> handle_props r ty w props [] = Inr d"
      by blast
    then show ?thesis
    proof cases
      case old
      show ?thesis
      proof (cases "k = xtext h")
        case True
        with old have "d' = d" by (simp add: update_conv')
        with r200 hr d' True show ?thesis by auto
      next
        case False
        with old have "map_of acc k = Some d" by (simp add: update_conv')
        then show ?thesis by simp
      qed
    next
      case new
      then show ?thesis by auto
    qed
  qed
qed

lemma handle_prop_response_keys:
  assumes "tree rsp = Some t" and "handle_prop_response rsp props ty w = Inr m"
  shows "(map_of m k \<noteq> None) = (\<exists>r\<in>set (findall t Response_tag). status_200 r \<and> href_of r = k)"
proof -
  from assms have run: "handle_responses ty w props (findall t Response_tag) [] = Inr m"
    by (simp add: handle_prop_response_def)
  from handle_responses_Inr [OF run]
  have keys: "fst ` set m = href_of ` {r \<in> set (findall t Response_tag). status_200 r}" by simp
  have "(map_of m k \<noteq> None) = (k \<in> fst ` set m)"
    by (simp add: map_of_eq_None_iff)
  also have "\<dots> = (\<exists>r\<in>set (findall t Response_tag). status_200 r \<and> href_of r = k)"
    unfolding keys by auto
  finally show ?thesis .
qed

lemma handle_prop_response_value:
  assumes "tree rsp = Some t" and "handle_prop_response rsp props ty w = Inr m"
    and "map_of m k = Some d"
  shows "\<exists>r\<in>set (findall t Response_tag).
           status_200 r \<and> href_of r = k \<and> handle_props r ty w props [] = Inr d"
proof -
  from assms have run: "handle_responses ty w props (findall t Response_tag) [] = Inr m"
    by (simp add: handle_prop_response_def)
  from handle_responses_value [OF run assms(3)] show ?thesis by simp
qed

lemma query_sent:
  "query env root dp m u ex self c = (res, c') \<Longrightarrow>
     c' = c\<lparr>sent := sent c @ [\<lparr>verb = m, target = (case u of None \<Rightarrow> obj_url self | Some x \<Rightarrow> Some x),
            payload = (case root of None \<Rightarrow> TextBody [] | Some r \<Rightarrow> XmlBody r),
            depth = Some dp, req_headers = []\<rparr>]\<rparr>"
  by (auto simp: query_def issue_def Let_def split: if_splits)

lemma query_properties_sent:
  "query_properties env props dp self c = (res, c') \<Longrightarrow>
     c' = c\<lparr>sent := sent c @ [propfind_request props dp (obj_url self)]\<rparr>"
  by (auto simp: query_properties_def propfind_request_def Let_def dest!: query_sent)

text \<open>
  C9. When the PROPFIND of \<^verbatim>\<open>get_properties\<close> is answered and parsed, the result is the
  property dict built from a 200 entry whose href is the path of the object's URL; when
  no 200 entry has that href, from one whose href is that path followed by a slash; when
  neither href occurs among the 200 entries, the call raises the plain \<^verbatim>\<open>Exception\<close>
  (no kind of the error module). In every case the one PROPFIND is the only request sent.
\<close>

theorem C9_get_properties_path:
  assumes q: "query_properties env props dp self c = (Inr rsp, c')"
    and t: "tree rsp = Some t"
    and h: "handle_prop_response rsp props None Text = Inr m"
    and u: "obj_url self = Some u"
  shows "((\<exists>r\<in>set (findall t Response_tag). status_200 r \<and> href_of r = Some (path env u)) \<longrightarrow>
            (\<exists>r\<in>set (findall t Response_tag). status_200 r \<and> href_of r = Some (path env u) \<and>
               get_properties env props dp self c = (handle_props r None Text props [], c')))
       \<and> (\<not> (\<exists>r\<in>set (findall t Response_tag). status_200 r \<and> href_of r = Some (path env u)) \<and>
          (\<exists>r\<in>set (findall t Response_tag). status_200 r \<and> href_of r = Some (path env u @ ''/'')) \<longrightarrow>
            (\<exists>r\<in>set (findall t Response_tag). status_200 r \<and> href_of r = Some (path env u @ ''/'') \<and>
               get_properties env props dp self c = (handle_props r None Text props [], c')))
       \<and> (\<not> (\<exists>r\<in>set (findall t Response_tag). status_200 r \<and>
               (href_of r = Some (path env u) \<or> href_of r = Some (path env u @ ''/''))) \<longrightarrow>
            get_properties env props dp self c = (Inl PyException, c'))
       \<and> sent c' = sent c @ [propfind_request props dp (Some u)]"
proof -
  let ?p = "path env u"
  have gp: "get_properties env props dp self c =
      (case map_of m (Some ?p) of
         Some rc \<Rightarrow> (Inr rc, c')
       | None \<Rightarrow> (case map_of m (Some (?p @ ''/'')) of
                    Some rc \<Rightarrow> (Inr rc, c') | None \<Rightarrow> (Inl PyException, c')))"
    by (simp add: get_properties_def q h u Let_def)
  have a: "\<exists>r\<in>set (findall t Response_tag). status_200 r \<and> href_of r = Some ?p \<and>
             get_properties env props dp self c = (handle_props r None Text props [], c')"
    if "\<exists>r\<in>set (findall t Response_tag). status_200 r \<and> href_of r = Some ?p"
  proof -
    from that handle_prop_response_keys [OF t h, of "Some ?p"]
    obtain rc where rc: "map_of m (Some ?p) = Some rc" by auto
    from handle_prop_response_value [OF t h rc] gp rc show ?thesis by auto
  qed
  have b: "\<exists>r\<in>set (findall t Response_tag). status_200 r \<and> href_of r = Some (?p @ ''/'') \<and>
             get_properties env props dp self c = (handle_props r None Text props [], c')"
    if "\<not> (\<exists>r\<in>set (findall t Response_tag). status_200 r \<and> href_of r = Some ?p)"
      and "\<exists>r\<in>set (findall t Response_tag). status_200 r \<and> href_of r = Some (?p @ ''/'')"
  proof -
    from that(1) handle_prop_response_keys [OF t h, of "Some ?p"]
    have none: "map_of m (Some ?p) = None" by auto
    from that(2) handle_prop_response_keys [OF t h, of "Some (?p @ ''/'')"]
    obtain rc where rc: "map_of m (Some (?p @ ''/'')) = Some rc" by auto
    from handle_prop_response_value [OF t h rc] gp rc none show ?thesis by auto
  qed
  have c: "get_properties env props dp self c = (Inl PyException, c')"
    if "\<not> (\<exists>r\<in>set (findall t Response_tag). status_200 r \<and>
               (href_of r = Some ?p \<or> href_of r = Some (?p @ ''/'')))"
  proof -
    from that handle_prop_response_keys [OF t h, of "Some ?p"]
    have n1: "map_of m (Some ?p) = None" by auto
    from that handle_prop_response_keys [OF t h, of "Some (?p @ ''/'')"]
    have n2: "map_of m (Some (?p @ ''/'')) = None" by auto
    show ?thesis by (simp add: gp n1 n2)
  qed
  have d: "sent c' = sent c @ [propfind_request props dp (Some u)]"
    using query_properties_sent [OF q] u by simp
  from a b c d show ?thesis by blast
qed

theorem C9_get_properties_witness:
  "get_properties
     (example_env (\<lambda>rq. multistatus [entry ''/dav/cal/'' ''HTTP/1.1 200 OK'' [DisplayName ''Work'']]))
     [elem DisplayName_tag] 0 (example_object (Some ''https://dav.example.com/dav/cal'') None)
     example_client
   = (Inr [(DisplayName_tag, Some ''Work'')],
      example_client\<lparr>sent := [propfind_request [elem DisplayName_tag] 0
                                  (Some ''https://dav.example.com/dav/cal'')]\<rparr>)
   \<and> fst (get_properties
     (example_env (\<lambda>rq. multistatus [entry ''/dav/other/'' ''HTTP/1.1 200 OK'' [DisplayName ''Work'']]))
     [elem DisplayName_tag] 0 (example_object (Some ''https://dav.example.com/dav/cal'') None)
     example_client) = Inl PyException"
proof -
  let ?ps = "[elem DisplayName_tag]"
  let ?u = "''https://dav.example.com/dav/cal''"
  let ?self = "example_object (Some ?u) None"
  let ?c' = "example_client\<lparr>sent := [propfind_request ?ps 0 (Some ?u)]\<rparr>"
  let ?es = "[entry ''/dav/other/'' ''HTTP/1.1 200 OK'' [DisplayName ''Work'']]"
  let ?env = "example_env (\<lambda>rq. multistatus ?es)"
  have q: "query_properties ?env ?ps 0 ?self example_client = (Inr (multistatus ?es), ?c')"
    by (simp add: run_eval propfind_request_def multistatus_def)
  have t: "tree (multistatus ?es) = Some (Element ''{DAV:}multistatus'' [] None ?es)"
    by (simp add: multistatus_def)
  have h: "handle_prop_response (multistatus ?es) ?ps None Text
             = Inr [(Some ''/dav/other/'', [(DisplayName_tag, Some ''Work'')])]"
    by (simp add: xml_eval handle_prop_response_def prop_value_def)
  have u: "obj_url ?self = Some ?u" by (simp add: example_object_def)
  have p: "path ?env ?u = ''/dav/cal''"
    by (simp add: example_env_def url_eval)
  have no: "\<not> (\<exists>r\<in>set (findall (Element ''{DAV:}multistatus'' [] None ?es) Response_tag).
               status_200 r \<and> (href_of r = Some (path ?env ?u) \<or> href_of r = Some (path ?env ?u @ ''/'')))"
    unfolding p by (simp add: xml_eval status_eval)
  have bad: "fst (get_properties ?env ?ps 0 ?self example_client) = Inl PyException"
    using C9_get_properties_path [OF q t h u] no by simp
  have good: "get_properties
     (example_env (\<lambda>rq. multistatus [entry ''/dav/cal/'' ''HTTP/1.1 200 OK'' [DisplayName ''Work'']]))
     ?ps 0 ?self example_client = (Inr [(DisplayName_tag, Some ''Work'')], ?c')"
    by (simp add: get_properties_def run_eval propfind_request_def xml_eval url_eval
        handle_prop_response_def prop_value_def)
  from good bad show ?thesis by simp
qed

section \<open>Listing children\<close>

lemma children_loop_not_self:
  "children_loop env ty (Some u) m ks acc = Inr cs \<Longrightarrow>
     \<forall>(x, rt)\<in>set acc. strip_trailing_slash env x \<noteq> strip_trailing_slash env u \<Longrightarrow>
     \<forall>(x, rt)\<in>set cs. strip_trailing_slash env x \<noteq> strip_trailing_slash env u"
proof (induction ks arbitrary: acc)
  case Nil
  then show ?case by simp
next
  case (Cons p ps)
  from Cons.prems(1) obtain vals rt where vals: "map_of m p = Some vals"
    and rt: "map_of vals ResourceType_tag = Some rt"
    by (auto split: option.splits)
  show ?case
  proof (cases "(rt = ty \<or> ty = None) \<and>
      strip_trailing_slash env u \<noteq> strip_trailing_slash env (join env u p)")
    case True
    with Cons.prems(1) vals rt
    have run: "children_loop env ty (Some u) m ps (acc @ [(join env u p, rt)]) = Inr cs"
      by auto
    have "\<forall>(x, rt)\<in>set (acc @ [(join env u p, rt)]).
            strip_trailing_slash env x \<noteq> strip_trailing_slash env u"
      using Cons.prems(2) True by auto
    from Cons.IH [OF run this] show ?thesis .
  next
    case False
    with Cons.prems(1) vals rt have run: "children_loop env ty (Some u) m ps acc = Inr cs"
      by (auto split: if_splits)
    from Cons.IH [OF run Cons.prems(2)] show ?thesis .
  qed
qed

lemma children_loop_eq:
  assumes "\<forall>p\<in>set ks. \<exists>vals. map_of m p = Some vals \<and> map_of vals ResourceType_tag \<noteq> None"
  shows "children_loop env ty (Some u) m ks acc =
     Inr (acc @ map (\<lambda>p. (join env u p, resource_type_of m p))
            (filter (\<lambda>p. (resource_type_of m p = ty \<or> ty = None) \<and>
                strip_trailing_slash env u \<noteq> strip_trailing_slash env (join env u p)) ks))"
proof -
  define keep where "keep = (\<lambda>p. (resource_type_of m p = ty \<or> ty = None) \<and>
      strip_trailing_slash env u \<noteq> strip_trailing_slash env (join env u p))"
  have "children_loop env ty (Some u) m ks acc =
          Inr (acc @ map (\<lambda>p. (join env u p, resource_type_of m p)) (filter keep ks))"
    using assms
  proof (induction ks arbitrary: acc)
    case Nil
    then show ?case by simp
  next
    case (Cons p ps)
    from Cons.prems obtain vals rt where vals: "map_of m p = Some vals"
      and rt: "map_of vals ResourceType_tag = Some rt"
      by auto
    have rto: "resource_type_of m p = rt" by (simp add: resource_type_of_def vals rt)
    from Cons.prems have rest:
      "\<forall>p\<in>set ps. \<exists>vals. map_of m p = Some vals \<and> map_of vals ResourceType_tag \<noteq> None"
      by simp
    show ?case
    proof (cases "keep p")
      case True
      then have "children_loop env ty (Some u) m (p # ps) acc =
                   children_loop env ty (Some u) m ps (acc @ [(join env u p, rt)])"
        by (auto simp: keep_def vals rt rto)
      with Cons.IH [OF rest] True show ?thesis by (simp add: rto)
    next
      case False
      then have "children_loop env ty (Some u) m (p # ps) acc =
                   children_loop env ty (Some u) m ps acc"
        by (auto simp: keep_def vals rt rto)
      with Cons.IH [OF rest] False show ?thesis by simp
    qed
  qed
  then show ?thesis by (simp add: keep_def)
qed

lemma handle_props_single:
  "handle_props r ty w [p] [] = Inr d \<Longrightarrow> map_of d (xtag p) \<noteq> None"
  by (auto split: sum.splits)

lemma handle_prop_response_has_resource_type:
  assumes "tree rsp = Some t"
    and "handle_prop_response rsp [elem ResourceType_tag] ty w = Inr m"
    and "p \<in> set (map fst m)"
  shows "\<exists>vals. map_of m p = Some vals \<and> map_of vals ResourceType_tag \<noteq> None"
proof -
  from assms(3) obtain vals where vals: "map_of m p = Some vals"
    by (metis domD dom_map_of_conv_image_fst list.set_map)
  from handle_prop_response_value [OF assms(1,2) vals]
  obtain r where "handle_props r ty w [elem ResourceType_tag] [] = Inr vals" by blast
  from handle_props_single [OF this] have "map_of vals ResourceType_tag \<noteq> None"
    by (simp add: elem_def)
  with vals show ?thesis by simp
qed

text \<open>
  C5. For an object with a URL, whatever the server lists: no pair \<^verbatim>\<open>children\<close> returns
  has a URL whose slash-stripped form is the slash-stripped form of the object's own URL.
  When the depth-1 PROPFIND is answered and parsed, the result is, in the order of the
  property map, the pair (joined URL, resource type) of every listed path whose resource
  type is the requested one (of every path when none is requested) and whose stripped
  URL differs from the object's.
\<close>

theorem C5_children_excludes_self:
  assumes u: "obj_url self = Some u"
  shows "(\<forall>cs c'. children env ty self c = (Inr cs, c') \<longrightarrow>
            (\<forall>(x, rt)\<in>set cs. strip_trailing_slash env x \<noteq> strip_trailing_slash env u))
       \<and> (\<forall>rsp c' m. query_properties env [elem ResourceType_tag] 1 self c = (Inr rsp, c') \<longrightarrow>
            handle_prop_response rsp [elem ResourceType_tag] ty Tag = Inr m \<longrightarrow>
            children env ty self c =
              (Inr (map (\<lambda>p. (join env u p, resource_type_of m p))
                      (filter (\<lambda>p. (resource_type_of m p = ty \<or> ty = None) \<and>
                           strip_trailing_slash env u \<noteq> strip_trailing_slash env (join env u p))
                         (map fst m))), c'))"
proof (intro conjI allI impI)
  fix cs c'
  assume run: "children env ty self c = (Inr cs, c')"
  then obtain rsp m where
    loop: "children_loop env ty (Some u) m (map fst m) [] = Inr cs"
    by (auto simp: children_def u Let_def split: prod.splits sum.splits)
  from children_loop_not_self [OF loop]
  show "\<forall>(x, rt)\<in>set cs. strip_trailing_slash env x \<noteq> strip_trailing_slash env u"
    by simp
next
  fix rsp c' m
  assume q: "query_properties env [elem ResourceType_tag] 1 self c = (Inr rsp, c')"
    and h: "handle_prop_response rsp [elem ResourceType_tag] ty Tag = Inr m"
  from h obtain t where t: "tree rsp = Some t"
    by (auto simp: handle_prop_response_def split: option.splits)
  have keys: "\<forall>p\<in>set (map fst m). \<exists>vals. map_of m p = Some vals \<and> map_of vals ResourceType_tag \<noteq> None"
    using handle_prop_response_has_resource_type [OF t h] by blast
  show "children env ty self c =
      (Inr (map (\<lambda>p. (join env u p, resource_type_of m p))
              (filter (\<lambda>p. (resource_type_of m p = ty \<or> ty = None) \<and>
                   strip_trailing_slash env u \<noteq> strip_trailing_slash env (join env u p))
                 (map fst m))), c')"
    using children_loop_eq [OF keys, of env ty u "[]"]
    by (simp add: children_def q h u)
qed

theorem C5_children_witness:
  "children
     (example_env (\<lambda>rq. multistatus
        [entry ''/dav/cal/'' ''HTTP/1.1 200 OK'' [calendar_type],
         entry ''/dav/cal/work/'' ''HTTP/1.1 200 OK'' [calendar_type],
         entry ''/dav/cal/notes.txt'' ''HTTP/1.1 200 OK'' [plain_type]]))
     (Some (caldav_ns ''calendar''))
     (example_object (Some ''https://dav.example.com/dav/cal/'') None) example_client
   = (Inr [(''https://dav.example.com/dav/cal/work/'', Some (caldav_ns ''calendar''))],
      example_client\<lparr>sent := [propfind_request [elem ResourceType_tag] 1
                                  (Some ''https://dav.example.com/dav/cal/'')]\<rparr>)"
proof -
  let ?u = "''https://dav.example.com/dav/cal/''"
  let ?self = "example_object (Some ?u) None"
  let ?es = "[entry ''/dav/cal/'' ''HTTP/1.1 200 OK'' [calendar_type],
         entry ''/dav/cal/work/'' ''HTTP/1.1 200 OK'' [calendar_type],
         entry ''/dav/cal/notes.txt'' ''HTTP/1.1 200 OK'' [plain_type]]"
  let ?env = "example_env (\<lambda>rq. multistatus ?es)"
  let ?c' = "example_client\<lparr>sent := [propfind_request [elem ResourceType_tag] 1 (Some ?u)]\<rparr>"
  let ?m = "[(Some ''/dav/cal/'', [(ResourceType_tag, Some (caldav_ns ''calendar''))]),
             (Some ''/dav/cal/work/'', [(ResourceType_tag, Some (caldav_ns ''calendar''))]),
             (Some ''/dav/cal/notes.txt'', [(ResourceType_tag, None)])]"
  have u: "obj_url ?self = Some ?u" by (simp add: example_object_def)
  have q: "query_properties ?env [elem ResourceType_tag] 1 ?self example_client
             = (Inr (multistatus ?es), ?c')"
    by (simp add: run_eval propfind_request_def multistatus_def elem_def)
  have h: "handle_prop_response (multistatus ?es) [elem ResourceType_tag]
             (Some (caldav_ns ''calendar'')) Tag = Inr ?m"
    by (simp add: xml_eval handle_prop_response_def prop_value_def getattr_what_def plain_type_def)
  show ?thesis
    using C5_children_excludes_self [OF u, of ?env "Some (caldav_ns ''calendar'')" example_client] q h
    by (simp add: resource_type_of_def example_env_def url_eval endswith_def caldav_ns_def
        ResourceType_tag_def)
qed

section \<open>Creating a calendar\<close>

lemmas calendar_eval = Calendar_save_def Calendar_create_def set_name_or_rollback_def
  set_properties_def delete_def calendar_server_def new_calendar_def mkcalendar_body_def

lemma endswith_append_same: "endswith (u @ s) s"
  by (simp add: endswith_def)

lemma Calendar_create_url:
  assumes "Calendar_create env nm i sccs self c = (Inr x, self', c')"
  shows "\<exists>pu. parent_url self = Some pu \<and>
           (obj_url self' = Some (join env pu (Some (case i of None \<Rightarrow> uuid1 env | Some x \<Rightarrow> x)))
            \<or> obj_url self' = Some (join env pu nm))"
  using assms
  by (auto simp: Calendar_create_def Let_def split: option.splits prod.splits sum.splits if_splits)

text \<open>
  C8. When \<^verbatim>\<open>save\<close> of a calendar without URL returns without error, the calendar's URL
  ends in a slash: it is the id-based URL or, when the probe was not answered 404, the
  name-based URL, with a slash appended unless it ended in one.
\<close>

theorem C8_calendar_url_ends_in_slash:
  assumes "obj_url self = None" and "Calendar_save env self c = (Inr x, self', c')"
  shows "\<exists>pu base. parent_url self = Some pu \<and>
           (base = join env pu (Some (case obj_id self of None \<Rightarrow> uuid1 env | Some i \<Rightarrow> i))
            \<or> base = join env pu (obj_name self)) \<and>
           obj_url self' = Some (with_slash base) \<and> endswith (with_slash base) ''/''"
proof -
  from assms obtain y self1 where
    cr: "Calendar_create env (obj_name self) (obj_id self) (extra_init_options self) self c
           = (Inr y, self1, c')"
    by (auto simp: Calendar_save_def split: prod.splits sum.splits option.splits if_splits)
  from Calendar_create_url [OF cr] obtain pu base where pu: "parent_url self = Some pu"
    and base: "base = join env pu (Some (case obj_id self of None \<Rightarrow> uuid1 env | Some i \<Rightarrow> i))
            \<or> base = join env pu (obj_name self)"
    and u1: "obj_url self1 = Some base"
    by auto
  from assms cr u1 have "obj_url self' = Some (with_slash base)"
    by (auto simp: Calendar_save_def with_slash_def split: if_splits)
  moreover have "endswith (with_slash base) ''/''"
    by (simp add: with_slash_def endswith_append_same)
  ultimately show ?thesis using pu base by blast
qed

theorem C8_calendar_url_witness:
  "obj_url (fst (snd (Calendar_save (example_env (calendar_server 200 ''HTTP/1.1 200 OK'' 204))
         (new_calendar (Some ''Work'') (Some ''work'')) example_client)))
     = Some ''https://dav.example.com/dav/Work/''
   \<and> obj_url (fst (snd (Calendar_save (example_env (calendar_server 404 ''HTTP/1.1 200 OK'' 204))
         (new_calendar (Some ''Work'') (Some ''work'')) example_client)))
     = Some ''https://dav.example.com/dav/work/''"
proof -
  let ?env = "example_env (calendar_server 200 ''HTTP/1.1 200 OK'' 204)"
  let ?self = "new_calendar (Some ''Work'') (Some ''work'')"
  have u: "obj_url ?self = None" by (simp add: new_calendar_def)
  obtain x self' c' where run: "Calendar_save ?env ?self example_client = (x, self', c')"
    by (cases "Calendar_save ?env ?self example_client") auto
  have ok: "x = Inr ()"
    using run by (simp add: calendar_eval run_eval xml_eval check_statuses.simps url_eval)
  have base1: "join ?env ''https://dav.example.com/dav/'' (Some ''work'') = ''https://dav.example.com/dav/work''"
    by (simp add: example_env_def url_eval endswith_def)
  have base2: "join ?env ''https://dav.example.com/dav/'' (Some ''Work'') = ''https://dav.example.com/dav/Work''"
    by (simp add: example_env_def url_eval endswith_def)
  have notid: "obj_url self' \<noteq> Some ''https://dav.example.com/dav/work/''"
    using run by (auto simp add: calendar_eval run_eval xml_eval check_statuses.simps url_eval)
  from C8_calendar_url_ends_in_slash [OF u run [unfolded ok]] base1 base2 notid
  have 1: "obj_url self' = Some ''https://dav.example.com/dav/Work/''"
    by (auto simp: new_calendar_def with_slash_def endswith_def)
  have 2: "obj_url (fst (snd (Calendar_save (example_env (calendar_server 404 ''HTTP/1.1 200 OK'' 204))
         (new_calendar (Some ''Work'') (Some ''work'')) example_client)))
     = Some ''https://dav.example.com/dav/work/''"
    by (simp add: calendar_eval run_eval xml_eval check_statuses.simps url_eval)
  from 1 2 run show ?thesis by simp
qed

lemma delete_with_url:
  "obj_url self = Some u \<Longrightarrow>
   delete env self c =
     (if status (server env (sent c @ [delete_request u])) \<in> {200, 204, 404}
      then Inr () else Inl DeleteError,
      c\<lparr>sent := sent c @ [delete_request u]\<rparr>)"
  by (simp add: delete_def issue_def delete_request_def)

text \<open>
  What \<^verbatim>\<open>except: self.delete(); raise\<close> does in \<^verbatim>\<open>Calendar._create\<close> when the PROPPATCH
  of a non-empty display name raised \<open>e\<close> after a successful MKCALENDAR: the DELETE
  request for the just-created URL is sent next, and \<open>e\<close> is raised again only when
  \<^verbatim>\<open>delete\<close> returns; a \<^verbatim>\<open>DeleteError\<close> of \<^verbatim>\<open>delete\<close> leaves the handler instead.
\<close>

lemma rollback_outcome:
  assumes n: "n \<noteq> []"
    and pu: "parent_url self = Some pu"
    and pth: "pth = join env pu (Some (case i of None \<Rightarrow> uuid1 env | Some x \<Rightarrow> x))"
    and s2: "self2 = self\<lparr>obj_id := Some (case i of None \<Rightarrow> uuid1 env | Some x \<Rightarrow> x),
                          obj_url := Some pth\<rparr>"
    and mk: "query env (Some (mkcalendar_body (Some n) sccs)) 0 Mkcalendar (Some pth) (Some 201)
               self2 c = (Inr r, c1)"
    and pp: "set_properties env [DisplayName n] self2 c1 = (Inl e, c2)"
  shows "Calendar_create env (Some n) i sccs self c =
           (if status (server env (sent c2 @ [delete_request pth])) \<in> {200, 204, 404}
            then Inl e else Inl DeleteError,
            self2, c2\<lparr>sent := sent c2 @ [delete_request pth]\<rparr>)"
proof -
  have u2: "obj_url self2 = Some pth" by (simp add: s2)
  have rb: "set_name_or_rollback env n self2 c1 =
      (if status (server env (sent c2 @ [delete_request pth])) \<in> {200, 204, 404}
       then Inl e else Inl DeleteError, c2\<lparr>sent := sent c2 @ [delete_request pth]\<rparr>)"
    by (simp add: set_name_or_rollback_def pp delete_with_url [OF u2])
  show ?thesis
    using mk
    by (simp add: Calendar_create_def Let_def pu n rb flip: pth s2)
qed

text \<open>
  C7, at the input where the code leaves the claim. A calendar named \<^verbatim>\<open>Work\<close> is created;
  MKCALENDAR is answered 201 and the PROPPATCH by a status line \<^verbatim>\<open>403 Forbidden\<close>, which
  raises \<^verbatim>\<open>PropsetError\<close>. The DELETE goes to the just-created URL in both runs. Answered
  204, the creation raises the \<^verbatim>\<open>PropsetError\<close>; answered 403, it raises \<^verbatim>\<open>DeleteError\<close>
  and the \<^verbatim>\<open>PropsetError\<close> never reaches the caller.
\<close>

theorem C7_rollback_masks_original_error:
  "fst (set_properties (example_env (calendar_server 404 ''HTTP/1.1 403 Forbidden'' 403))
          [DisplayName ''Work'']
          ((new_calendar (Some ''Work'') (Some ''work''))
             \<lparr>obj_url := Some ''https://dav.example.com/dav/work''\<rparr>)
          example_client) = Inl PropsetError
   \<and> fst (Calendar_create (example_env (calendar_server 404 ''HTTP/1.1 403 Forbidden'' 204))
          (Some ''Work'') (Some ''work'') None (new_calendar (Some ''Work'') (Some ''work''))
          example_client) = Inl PropsetError
   \<and> fst (Calendar_create (example_env (calendar_server 404 ''HTTP/1.1 403 Forbidden'' 403))
          (Some ''Work'') (Some ''work'') None (new_calendar (Some ''Work'') (Some ''work''))
          example_client) = Inl DeleteError
   \<and> map (\<lambda>rq. (verb rq, target rq))
        (sent (snd (snd (Calendar_create
          (example_env (calendar_server 404 ''HTTP/1.1 403 Forbidden'' 403))
          (Some ''Work'') (Some ''work'') None (new_calendar (Some ''Work'') (Some ''work''))
          example_client))))
      = [(Mkcalendar, Some ''https://dav.example.com/dav/work''),
         (Proppatch, Some ''https://dav.example.com/dav/work''),
         (Delete, Some ''https://dav.example.com/dav/work'')]"
  by (simp add: calendar_eval run_eval xml_eval check_statuses.simps url_eval)

section \<open>Looking an event up by UID\<close>

lemma xfind_findall: "xfind e tg = (case findall e tg of [] \<Rightarrow> None | d # _ \<Rightarrow> Some d)"
  by (simp add: xfind_def)

lemma query_report:
  "query env (Some (uid_query u)) 1 Report None None self c =
     (let rsp = server env (sent c @ [report_request u (obj_url self)]);
          c' = c\<lparr>sent := sent c @ [report_request u (obj_url self)]\<rparr>
      in if status rsp = 404 then (Inl NotFoundError, c')
         else if status rsp \<ge> 400 then (Inl (exception_by_method env Report), c')
         else (Inr rsp, c'))"
  by (simp add: query_def issue_def report_request_def Let_def)

text \<open>
  C4. \<^verbatim>\<open>event_by_uid\<close> sends one REPORT. With \<^verbatim>\<open>ReportError\<close> as the error of the table
  for REPORT: a 404 answer raises \<^verbatim>\<open>NotFoundError\<close>; a 400 answer raises \<^verbatim>\<open>ReportError\<close>;
  an answer below 400 whose tree has no \<^verbatim>\<open><response>\<close> entry raises \<^verbatim>\<open>NotFoundError\<close>;
  and an answer below 400 whose first entry has an href and calendar data that the
  reader accepts returns the one Event built from that href (joined to the client's URL),
  those data and the calendar as parent.
\<close>

theorem C4_event_by_uid_outcomes:
  assumes tbl: "exception_by_method env Report = ReportError"
    and rsp: "rsp = server env (sent c @ [report_request u (obj_url self)])"
    and c': "c' = c\<lparr>sent := sent c @ [report_request u (obj_url self)]\<rparr>"
  shows "(status rsp = 404 \<longrightarrow> event_by_uid env u self c = (Inl NotFoundError, c'))
       \<and> (status rsp = 400 \<longrightarrow> event_by_uid env u self c = (Inl ReportError, c'))
       \<and> (\<forall>t. status rsp < 400 \<and> tree rsp = Some t \<and> findall t Response_tag = [] \<longrightarrow>
             event_by_uid env u self c = (Inl NotFoundError, c'))
       \<and> (\<forall>t r rs h d ical inst.
             status rsp < 400 \<and> tree rsp = Some t \<and> findall t Response_tag = r # rs \<and>
             xfind r Href_tag = Some h \<and> xfind r CalendarData_tag = Some d \<and>
             xtext d = Some ical \<and> readOne env (vcal_fix env ical) = Some inst \<longrightarrow>
             event_by_uid env u self c =
               (Inr \<lparr>obj_id = None,
                     obj_url = (case xtext h of
                                  None \<Rightarrow> None
                                | Some x \<Rightarrow> if url_bool env x
                                            then Some (join env (client_url c) (Some x))
                                            else Some x),
                     obj_name = None, parent_url = obj_url self, extra_init_options = None,
                     priv_data = Some (vcal_fix env ical), priv_instance = Some inst\<rparr>, c'))"
proof -
  have q: "query env (Some (uid_query u)) 1 Report None None self c =
      (if status rsp = 404 then (Inl NotFoundError, c')
       else if status rsp \<ge> 400 then (Inl ReportError, c')
       else (Inr rsp, c'))"
    by (simp add: query_report Let_def tbl rsp c')
  have r404: "event_by_uid env u self c = (Inl NotFoundError, c')" if "status rsp = 404"
    using that by (simp add: event_by_uid_def q)
  have r400: "event_by_uid env u self c = (Inl ReportError, c')" if "status rsp = 400"
    using that by (simp add: event_by_uid_def q)
  have empty: "event_by_uid env u self c = (Inl NotFoundError, c')"
    if "status rsp < 400" "tree rsp = Some t" "findall t Response_tag = []" for t
    using that by (simp add: event_by_uid_def q xfind_findall)
  have first_entry: "event_by_uid env u self c =
               (Inr \<lparr>obj_id = None,
                     obj_url = (case xtext h of
                                  None \<Rightarrow> None
                                | Some x \<Rightarrow> if url_bool env x
                                            then Some (join env (client_url c) (Some x))
                                            else Some x),
                     obj_name = None, parent_url = obj_url self, extra_init_options = None,
                     priv_data = Some (vcal_fix env ical), priv_instance = Some inst\<rparr>, c')"
    if "status rsp < 400" "tree rsp = Some t" "findall t Response_tag = r # rs"
      "xfind r Href_tag = Some h" "xfind r CalendarData_tag = Some d"
      "xtext d = Some ical" "readOne env (vcal_fix env ical) = Some inst" for t r rs h d ical inst
  proof -
    have first: "xfind t Response_tag = Some r" using that(3) by (simp add: xfind_findall)
    have init: "CalendarObjectResource_init env c' (xtext h) (xtext d) (obj_url self) None =
        (Inr (), \<lparr>obj_id = None,
                     obj_url = (case xtext h of
                                  None \<Rightarrow> None
                                | Some x \<Rightarrow> if url_bool env x
                                            then Some (join env (client_url c) (Some x))
                                            else Some x),
                     obj_name = None, parent_url = obj_url self, extra_init_options = None,
                     priv_data = Some (vcal_fix env ical), priv_instance = Some inst\<rparr>)"
      by (cases "xtext h")
        (simp_all add: CalendarObjectResource_init_def DAVObject_init_def set_data_def that(6,7) c')
    show ?thesis
      using that(1,2) by (simp add: event_by_uid_def q first that(4,5) init)
  qed
  show ?thesis
  proof (intro conjI allI impI)
    assume "status rsp = 404"
    then show "event_by_uid env u self c = (Inl NotFoundError, c')" by (rule r404)
  next
    assume "status rsp = 400"
    then show "event_by_uid env u self c = (Inl ReportError, c')" by (rule r400)
  next
    fix t
    assume "status rsp < 400 \<and> tree rsp = Some t \<and> findall t Response_tag = []"
    then show "event_by_uid env u self c = (Inl NotFoundError, c')" using empty by blast
  next
    fix t r rs h d1 ical inst
    assume "status rsp < 400 \<and> tree rsp = Some t \<and> findall t Response_tag = r # rs \<and>
             xfind r Href_tag = Some h \<and> xfind r CalendarData_tag = Some d1 \<and>
             xtext d1 = Some ical \<and> readOne env (vcal_fix env ical) = Some inst"
    then show "event_by_uid env u self c =
               (Inr \<lparr>obj_id = None,
                     obj_url = (case xtext h of
                                  None \<Rightarrow> None
                                | Some x \<Rightarrow> if url_bool env x
                                            then Some (join env (client_url c) (Some x))
                                            else Some x),
                     obj_name = None, parent_url = obj_url self, extra_init_options = None,
                     priv_data = Some (vcal_fix env ical), priv_instance = Some inst\<rparr>, c')"
      using first_entry [of t r rs h d1 ical inst] by blast
  qed
qed

theorem C4_event_by_uid_witness:
  "fst (event_by_uid (example_env (\<lambda>rq. plain 404)) ''abc123''
          (example_object (Some ''https://dav.example.com/dav/cal/'') None) example_client)
     = Inl NotFoundError
   \<and> fst (event_by_uid
          (example_env (\<lambda>rq. multistatus
             [entry ''/dav/cal/abc123.ics'' ''HTTP/1.1 200 OK'' [calendar_data ''VEVENT:abc123'']]))
          ''abc123'' (example_object (Some ''https://dav.example.com/dav/cal/'') None)
          example_client)
     = Inr \<lparr>obj_id = None, obj_url = Some ''https://dav.example.com/dav/cal/abc123.ics'',
            obj_name = None, parent_url = Some ''https://dav.example.com/dav/cal/'',
            extra_init_options = None, priv_data = Some ''VEVENT:abc123'',
            priv_instance = Some (event_with_uid ''abc123'')\<rparr>"
proof -
  let ?self = "example_object (Some ''https://dav.example.com/dav/cal/'') None"
  let ?rq = "report_request ''abc123'' (obj_url ?self)"
  let ?c' = "example_client\<lparr>sent := sent example_client @ [?rq]\<rparr>"
  let ?e1 = "example_env (\<lambda>rq. plain 404)"
  let ?es = "[entry ''/dav/cal/abc123.ics'' ''HTTP/1.1 200 OK'' [calendar_data ''VEVENT:abc123'']]"
  let ?e2 = "example_env (\<lambda>rq. multistatus ?es)"
  have t1: "exception_by_method ?e1 Report = ReportError" by (simp add: example_env_def)
  have r1: "plain 404 = server ?e1 (sent example_client @ [?rq])" by (simp add: example_env_def)
  have s1: "status (plain 404) = 404" by (simp add: plain_def)
  from C4_event_by_uid_outcomes [OF t1 r1 refl] s1
  have 1: "fst (event_by_uid ?e1 ''abc123'' ?self example_client) = Inl NotFoundError" by simp
  have t2: "exception_by_method ?e2 Report = ReportError" by (simp add: example_env_def)
  have r2: "multistatus ?es = server ?e2 (sent example_client @ [?rq])"
    by (simp add: example_env_def)
  have facts: "status (multistatus ?es) < 400 \<and>
      tree (multistatus ?es) = Some (Element ''{DAV:}multistatus'' [] None ?es) \<and>
      findall (Element ''{DAV:}multistatus'' [] None ?es) Response_tag
        = entry ''/dav/cal/abc123.ics'' ''HTTP/1.1 200 OK'' [calendar_data ''VEVENT:abc123''] # [] \<and>
      xfind (entry ''/dav/cal/abc123.ics'' ''HTTP/1.1 200 OK'' [calendar_data ''VEVENT:abc123''])
        Href_tag = Some (Element Href_tag [] (Some ''/dav/cal/abc123.ics'') []) \<and>
      xfind (entry ''/dav/cal/abc123.ics'' ''HTTP/1.1 200 OK'' [calendar_data ''VEVENT:abc123''])
        CalendarData_tag = Some (calendar_data ''VEVENT:abc123'') \<and>
      xtext (calendar_data ''VEVENT:abc123'') = Some ''VEVENT:abc123'' \<and>
      readOne ?e2 (vcal_fix ?e2 ''VEVENT:abc123'') = Some (event_with_uid ''abc123'')"
    by (simp add: xml_eval calendar_data_def example_env_def toy_readOne_def)
  from C4_event_by_uid_outcomes [OF t2 r2 refl] facts
  have "event_by_uid ?e2 ''abc123'' ?self example_client =
      (Inr \<lparr>obj_id = None,
             obj_url = (case xtext (Element Href_tag [] (Some ''/dav/cal/abc123.ics'') []) of
                          None \<Rightarrow> None
                        | Some x \<Rightarrow> if url_bool ?e2 x
                                    then Some (join ?e2 (client_url example_client) (Some x))
                                    else Some x),
             obj_name = None, parent_url = obj_url ?self, extra_init_options = None,
             priv_data = Some (vcal_fix ?e2 ''VEVENT:abc123''),
             priv_instance = Some (event_with_uid ''abc123'')\<rparr>, ?c')"
    by blast
  then have 2: "fst (event_by_uid ?e2 ''abc123'' ?self example_client)
     = Inr \<lparr>obj_id = None, obj_url = Some ''https://dav.example.com/dav/cal/abc123.ics'',
            obj_name = None, parent_url = Some ''https://dav.example.com/dav/cal/'',
            extra_init_options = None, priv_data = Some ''VEVENT:abc123'',
            priv_instance = Some (event_with_uid ''abc123'')\<rparr>"
    by (simp add: example_env_def example_object_def example_client_def url_eval)
  from 1 2 show ?thesis by simp
qed

section \<open>Calendar object resources\<close>

lemmas resource_eval = Resource_save_def Resource_create_def derive_id_def put_headers_def
  uid_of_instance_def
  location_header_def get_instance_def put_server_def example_event_def event_with_uid_def
  toy_serialize_def toy_readOne_def dot_ics_def


text \<open>
  C10. \<^verbatim>\<open>save\<close> of a calendar object resource without instance returns the resource as it
  is and leaves the client as it is: no request is sent, URL and id are unchanged. A
  resource constructed without data is such a resource.
\<close>

theorem C10_save_without_instance:
  "(priv_instance self = None \<longrightarrow> Resource_save env self c = (Inr (), self, c))
   \<and> Resource_save env (snd (CalendarObjectResource_init env c0 u None parent i)) c
       = (Inr (), snd (CalendarObjectResource_init env c0 u None parent i), c)"
  by (simp add: Resource_save_def CalendarObjectResource_init_def Let_def)

theorem C10_save_without_instance_witness:
  "Resource_save (example_env (put_server 201 []))
     (example_event (Some ''https://dav.example.com/dav/physics/e1.ics'') None None) example_client
   = (Inr (), example_event (Some ''https://dav.example.com/dav/physics/e1.ics'') None None,
      example_client)
   \<and> sent example_client = []"
proof -
  have "priv_instance (example_event (Some ''https://dav.example.com/dav/physics/e1.ics'') None None)
          = None"
    by (simp add: example_event_def)
  with C10_save_without_instance
    [of "example_event (Some ''https://dav.example.com/dav/physics/e1.ics'') None None"
        "example_env (put_server 201 [])" example_client]
  show ?thesis by (simp add: example_client_def)
qed

text \<open>
  C2, at the input where the code leaves the claim. An event at
  \<^verbatim>\<open>https://dav.example.com/dav/physics/e1.ics\<close> without id is saved: the search finds its
  leftmost match inside the segment \<^verbatim>\<open>physics\<close> (the unescaped dot takes the \<^verbatim>\<open>s\<close>), and
  the id becomes \<^verbatim>\<open>phy\<close>, not \<^verbatim>\<open>e1\<close> of the final segment.
\<close>

theorem C2_id_from_path_evaluation:
  "re_search True ''/dav/physics/e1.ics'' = Some ''phy''
   \<and> Resource_save (example_env (put_server 201 []))
       (example_event (Some ''https://dav.example.com/dav/physics/e1.ics'') (Some ''VEVENT:e1'')
          (Some (event_with_uid ''e1''))) example_client
     = (Inr (),
        (example_event (Some ''https://dav.example.com/dav/physics/e1.ics'') (Some ''VEVENT:e1'')
          (Some (event_with_uid ''e1'')))\<lparr>obj_id := Some ''phy''\<rparr>,
        example_client\<lparr>sent :=
          [\<lparr>verb = Put, target = Some ''https://dav.example.com/dav/physics/e1.ics'',
            payload = TextBody ''VEVENT:e1'', depth = None, req_headers = put_headers\<rparr>]\<rparr>)"
  by (simp add: resource_eval run_eval url_eval endswith_def)

text \<open>
  C3, at the input where the code leaves the claim. \<^verbatim>\<open>set_data\<close> assigns the fixed
  text before the reader parses it. So, whatever the codec, when the reader rejects the
  text the call raises and the resource is left with the rejected text beside the
  instance it had before: the two forms are no longer in step.
\<close>

theorem C3_rejected_text_beside_old_instance:
  "readOne env (vcal_fix env d) = None \<Longrightarrow>
     set_data env d self = (Inl ParseError, self\<lparr>priv_data := Some (vcal_fix env d)\<rparr>)
     \<and> get_data (snd (set_data env d self)) = Some (vcal_fix env d)
     \<and> get_instance (snd (set_data env d self)) = get_instance self"
  by (simp add: set_data_def get_data_def get_instance_def Let_def)

theorem C3_rejected_text_witness:
  "set_data (example_env (put_server 201 [])) ''not a calendar''
     (example_event None (Some ''VEVENT:abc123'') (Some (event_with_uid ''abc123'')))
   = (Inl ParseError,
      example_event None (Some ''not a calendar'') (Some (event_with_uid ''abc123'')))
   \<and> toy_readOne ''not a calendar'' = None"
proof -
  let ?env = "example_env (put_server 201 [])"
  have q: "readOne ?env (vcal_fix ?env ''not a calendar'') = None"
    by (simp add: example_env_def toy_readOne_def)
  from C3_rejected_text_beside_old_instance [OF q,
      of "example_event None (Some ''VEVENT:abc123'') (Some (event_with_uid ''abc123''))"]
  show ?thesis
    by (simp add: example_event_def example_env_def toy_readOne_def)
qed

section \<open>The calendar-home-set of a principal\<close>

text \<open>
  C6 (amended). Resolving the calendar-home-set of a principal that has none cached,
  when the PROPFIND returns the href: if the href has a hostname and it differs from the
  hostname of the client's URL, the client's URL becomes the href itself, otherwise the
  client is left as it is; the CalendarSet is then built from the href joined to the
  client's URL; it is cached, and resolving again returns it without a request.
\<close>

theorem C6_home_set_replaces_base_url:
  assumes fresh: "priv_calendar_home_set self = None"
    and gp: "get_properties env [elem CalendarHomeSet_tag] 0 self c = (Inr chs, c1)"
    and v: "map_of chs CalendarHomeSet_tag = Some (Some href)"
    and c2: "c2 = (if truthy (hostname env href) \<and> hostname env href \<noteq> hostname env (client_url c1)
                   then c1\<lparr>client_url := href\<rparr> else c1)"
    and cs: "cs = DAVObject_init env c2 (Some (join env (client_url c2) (Some href)))
                    None None None None"
  shows "calendar_home_set env self c = (Inr (Some cs), self\<lparr>priv_calendar_home_set := Some cs\<rparr>, c2)
       \<and> calendar_home_set env (self\<lparr>priv_calendar_home_set := Some cs\<rparr>) c2
           = (Inr (Some cs), self\<lparr>priv_calendar_home_set := Some cs\<rparr>, c2)
       \<and> sent c2 = sent c1 \<and> client_url c1 = client_url c"
proof -
  from gp obtain res where "query_properties env [elem CalendarHomeSet_tag] 0 self c = (res, c1)"
    by (auto simp: get_properties_def Let_def split: prod.splits sum.splits option.splits)
  from query_properties_sent [OF this] have "client_url c1 = client_url c" by simp
  then show ?thesis
    by (simp add: calendar_home_set_def fresh gp v set_calendar_home_set_def Let_def c2 cs)
qed

lemmas home_set_eval = calendar_home_set_def set_calendar_home_set_def get_properties_def
  handle_prop_response_def prop_value_def getattr_what_def DAVObject_init_def truthy_def
  example_principal_def home_set_server_def

text \<open>
  The claim as written fails on the rest of the base URL: with the base
  \<^verbatim>\<open>https://dav.example.com/dav/\<close> and the href \<^verbatim>\<open>https://p42.example.com/1234/calendars/\<close>
  the base becomes the href, so its path changes from \<^verbatim>\<open>/dav/\<close> to \<^verbatim>\<open>/1234/calendars/\<close>.
\<close>

theorem C6_home_set_counterexample:
  "client_url example_client = ''https://dav.example.com/dav/''
   \<and> client_url (snd (snd (calendar_home_set
         (example_env (home_set_server ''https://p42.example.com/1234/calendars/''))
         example_principal example_client)))
       = ''https://p42.example.com/1234/calendars/''
   \<and> url_hostname ''https://p42.example.com/1234/calendars/'' = Some ''p42.example.com''
   \<and> url_hostname (client_url example_client) = Some ''dav.example.com''
   \<and> url_path ''https://p42.example.com/1234/calendars/'' = ''/1234/calendars/''
   \<and> url_path (client_url example_client) = ''/dav/''"
  by (simp add: home_set_eval run_eval xml_eval url_eval)

theorem C6_home_set_witness:
  "fst (calendar_home_set
         (example_env (home_set_server ''https://p42.example.com/1234/calendars/''))
         example_principal example_client)
   = Inr (Some (example_object (Some ''https://p42.example.com/1234/calendars/'') None))
   \<and> client_url (snd (snd (calendar_home_set
         (example_env (home_set_server ''https://p42.example.com/1234/calendars/''))
         example_principal example_client)))
       = ''https://p42.example.com/1234/calendars/''"
proof -
  let ?href = "''https://p42.example.com/1234/calendars/''"
  let ?env = "example_env (home_set_server ?href)"
  let ?c1 = "example_client\<lparr>sent := [propfind_request [elem CalendarHomeSet_tag] 0
                                  (Some ''https://dav.example.com/principals/u1/'')]\<rparr>"
  have fresh: "priv_calendar_home_set example_principal = None"
    by (simp add: example_principal_def)
  have gp: "get_properties ?env [elem CalendarHomeSet_tag] 0 example_principal example_client
              = (Inr [(CalendarHomeSet_tag, Some ?href)], ?c1)"
    by (simp add: home_set_eval run_eval xml_eval url_eval propfind_request_def)
  have v: "map_of [(CalendarHomeSet_tag, Some ?href)] CalendarHomeSet_tag = Some (Some ?href)"
    by simp
  have c2: "?c1\<lparr>client_url := ?href\<rparr> =
      (if truthy (hostname ?env ?href) \<and> hostname ?env ?href \<noteq> hostname ?env (client_url ?c1)
       then ?c1\<lparr>client_url := ?href\<rparr> else ?c1)"
    by (simp add: example_env_def example_client_def url_eval truthy_def)
  have cs: "example_object (Some ?href) None =
      DAVObject_init ?env (?c1\<lparr>client_url := ?href\<rparr>)
        (Some (join ?env (client_url (?c1\<lparr>client_url := ?href\<rparr>)) (Some ?href)))
        None None None None"
    by (simp add: example_env_def example_object_def DAVObject_init_def url_eval)
  from C6_home_set_replaces_base_url [OF fresh gp v c2 cs]
  show ?thesis by simp
qed

end
